theory Spec2Isabelle
  imports Complex_Main "HOL-Library.AList"
begin

section \<open>JavaScript values and option objects\<close>

text \<open>
  The library stores drawing options in plain JavaScript objects. A property value is one
  of the values below; \<open>Undefined\<close> is what reading an absent property returns, and it
  can also be stored under a key explicitly. Numbers are modelled as reals, without
  rounding; where the code accepts any number from its caller (the value assigned to a
  select) or computes with the value of an option (the drawing of a text) the type
  \<open>number\<close> below adds NaN and the two infinities.
\<close>

datatype jsval =
    Undefined
  | Null
  | Boolean bool
  | Number real
  | String string
  | Array "jsval list"
  | Object "(string \<times> jsval) list"

type_synonym object = "(string \<times> jsval) list"

text \<open>Property read \<open>o.k\<close>: an absent key reads as \<open>undefined\<close>.\<close>

definition get_prop :: "object \<Rightarrow> string \<Rightarrow> jsval" where
  "get_prop obj k = (case map_of obj k of None \<Rightarrow> Undefined | Some v \<Rightarrow> v)"

text \<open>
  The values JavaScript takes for true in a condition: every value but \<open>undefined\<close>,
  \<open>null\<close>, \<open>false\<close>, 0 and the empty string.
\<close>

fun truthy :: "jsval \<Rightarrow> bool" where
  "truthy Undefined = False"
| "truthy Null = False"
| "truthy (Boolean b) = b"
| "truthy (Number r) = (r \<noteq> 0)"
| "truthy (String s) = (s \<noteq> [])"
| "truthy (Array a) = True"
| "truthy (Object obj) = True"

text \<open>
  Object spread \<open>{...a, ...b}\<close>, and an object literal that continues a spread with
  further keys: every property of \<open>b\<close> is assigned onto a copy of \<open>a\<close>, so a key of
  \<open>b\<close> takes the value it has in \<open>b\<close>, whatever that value is, and the other keys of
  \<open>a\<close> stay. Of a key bound twice in a list only the first binding is the property (the
  one \<open>get_prop\<close> reads). The order in which new keys are appended is not part of the
  model.
\<close>

definition spread :: "object \<Rightarrow> object \<Rightarrow> object" where
  "spread a b = foldr (\<lambda>(k, v). AList.update k v) b a"

text \<open>
  The merge as the specification words it, for comparison with \<open>spread\<close>: child keys
  override parent keys, two nested objects under the same key merge recursively, every
  other value (arrays included) replaces the parent's wholesale.
\<close>

fun deep_value :: "jsval \<Rightarrow> jsval \<Rightarrow> jsval" where
  "deep_value (Object p) (Object c) =
     Object (foldr (\<lambda>(k, v). AList.update k (deep_value (get_prop p k) v)) c p)"
| "deep_value pv cv = cv"

definition deep_merge :: "object \<Rightarrow> object \<Rightarrow> object" where
  "deep_merge p c = foldr (\<lambda>(k, v). AList.update k (deep_value (get_prop p k) v)) c p"

section \<open>Errors, helpers of the math module, the canvas path\<close>

text \<open>
  The exceptions the modelled code can raise: the \<open>RangeError\<close> thrown by the Select
  constructor, the \<open>TypeError\<close> JavaScript raises when a property of \<open>undefined\<close>
  is read, and the \<open>IndexSizeError\<close> of the canvas.
\<close>

datatype error = RangeError string | TypeError | IndexSizeError

text \<open>
  A JavaScript number that is not rounded: NaN, an infinity or a real. The numeral 0 of
  this type is the real 0.
\<close>

datatype number = NaN | NegInfinity | Finite real | PosInfinity

instantiation number :: zero
begin

definition zero_number :: number where
  "zero_number = Finite 0"

instance ..

end

text \<open>\<open>Math.max\<close> and \<open>Math.min\<close> of two numbers: NaN when an argument is NaN.\<close>

fun number_max :: "number \<Rightarrow> number \<Rightarrow> number" where
  "number_max NaN b = NaN"
| "number_max a NaN = NaN"
| "number_max PosInfinity b = PosInfinity"
| "number_max a PosInfinity = PosInfinity"
| "number_max NegInfinity b = b"
| "number_max a NegInfinity = a"
| "number_max (Finite x) (Finite y) = Finite (max x y)"

fun number_min :: "number \<Rightarrow> number \<Rightarrow> number" where
  "number_min NaN b = NaN"
| "number_min a NaN = NaN"
| "number_min NegInfinity b = NegInfinity"
| "number_min a NegInfinity = NegInfinity"
| "number_min PosInfinity b = b"
| "number_min a PosInfinity = a"
| "number_min (Finite x) (Finite y) = Finite (min x y)"

text \<open>
  The arithmetic of JavaScript numbers, without rounding and without the sign of a zero:
  a number other than 0 divided by 0 is the infinity that has the sign of the dividend.
  \<open>a > b\<close> is false when an operand is NaN.
\<close>

fun number_uminus :: "number \<Rightarrow> number" where
  "number_uminus NaN = NaN"
| "number_uminus NegInfinity = PosInfinity"
| "number_uminus (Finite x) = Finite (- x)"
| "number_uminus PosInfinity = NegInfinity"

fun number_plus :: "number \<Rightarrow> number \<Rightarrow> number" where
  "number_plus NaN b = NaN"
| "number_plus a NaN = NaN"
| "number_plus (Finite x) (Finite y) = Finite (x + y)"
| "number_plus PosInfinity NegInfinity = NaN"
| "number_plus NegInfinity PosInfinity = NaN"
| "number_plus PosInfinity b = PosInfinity"
| "number_plus a PosInfinity = PosInfinity"
| "number_plus NegInfinity b = NegInfinity"
| "number_plus a NegInfinity = NegInfinity"

definition number_minus :: "number \<Rightarrow> number \<Rightarrow> number" where
  "number_minus a b = number_plus a (number_uminus b)"

fun number_times :: "number \<Rightarrow> number \<Rightarrow> number" where
  "number_times NaN b = NaN"
| "number_times a NaN = NaN"
| "number_times (Finite x) (Finite y) = Finite (x * y)"
| "number_times (Finite x) PosInfinity =
     (if x = 0 then NaN else if 0 < x then PosInfinity else NegInfinity)"
| "number_times (Finite x) NegInfinity =
     (if x = 0 then NaN else if 0 < x then NegInfinity else PosInfinity)"
| "number_times PosInfinity (Finite y) =
     (if y = 0 then NaN else if 0 < y then PosInfinity else NegInfinity)"
| "number_times NegInfinity (Finite y) =
     (if y = 0 then NaN else if 0 < y then NegInfinity else PosInfinity)"
| "number_times PosInfinity PosInfinity = PosInfinity"
| "number_times PosInfinity NegInfinity = NegInfinity"
| "number_times NegInfinity PosInfinity = NegInfinity"
| "number_times NegInfinity NegInfinity = PosInfinity"

fun number_divide :: "number \<Rightarrow> number \<Rightarrow> number" where
  "number_divide NaN b = NaN"
| "number_divide a NaN = NaN"
| "number_divide (Finite x) (Finite y) =
     (if y \<noteq> 0 then Finite (x / y)
      else if x = 0 then NaN else if 0 < x then PosInfinity else NegInfinity)"
| "number_divide (Finite x) b = Finite 0"
| "number_divide PosInfinity (Finite y) = (if 0 \<le> y then PosInfinity else NegInfinity)"
| "number_divide NegInfinity (Finite y) = (if 0 \<le> y then NegInfinity else PosInfinity)"
| "number_divide a b = NaN"

fun number_greater :: "number \<Rightarrow> number \<Rightarrow> bool" where
  "number_greater NaN b = False"
| "number_greater a NaN = False"
| "number_greater (Finite x) (Finite y) = (y < x)"
| "number_greater PosInfinity PosInfinity = False"
| "number_greater PosInfinity b = True"
| "number_greater a PosInfinity = False"
| "number_greater NegInfinity b = False"
| "number_greater a NegInfinity = True"

text \<open>
  Modelled from the spec: the module @pencil.js/math is not among the sources. The spec
  lists its functions (clamp, modulo) as pure functions and fixes the angle convention
  (1.0 is a full turn). \<open>constrain\<close> clamps a value between a minimum and a maximum
  with \<open>Math.min\<close> and \<open>Math.max\<close>, so it gives NaN for NaN; \<open>modulo\<close> is the
  remainder that takes the sign of the divisor (a divisor of 0, for which JavaScript has
  no number, is outside the model), and \<open>radianCircle\<close> is the radian measure of a
  full turn.
\<close>

definition constrain :: "number \<Rightarrow> number \<Rightarrow> number \<Rightarrow> number" where
  "constrain v lo hi = number_min (number_max v lo) hi"

definition modulo :: "real \<Rightarrow> real \<Rightarrow> real" where
  "modulo v n = v - n * of_int \<lfloor>v / n\<rfloor>"

definition radianCircle :: real where
  "radianCircle = 2 * pi"

text \<open>
  A \<open>Path2D\<close> is modelled by the list of the calls made on it. \<open>rect\<close>, \<open>moveTo\<close>
  and \<open>lineTo\<close> accept every finite argument. \<open>ellipse\<close> is the host's (HTML canvas)
  method: it raises \<open>IndexSizeError\<close> when a radius is negative and appends the ellipse
  otherwise.
\<close>

datatype path_command =
    Rect real real real real
  | MoveTo real real
  | LineTo real real
  | Ellipse real real real real real real real

type_synonym path = "path_command list"

definition path_rect :: "real \<Rightarrow> real \<Rightarrow> real \<Rightarrow> real \<Rightarrow> path \<Rightarrow> path" where
  "path_rect x y w h p = p @ [Rect x y w h]"

definition path_moveTo :: "real \<Rightarrow> real \<Rightarrow> path \<Rightarrow> path" where
  "path_moveTo x y p = p @ [MoveTo x y]"

definition path_lineTo :: "real \<Rightarrow> real \<Rightarrow> path \<Rightarrow> path" where
  "path_lineTo x y p = p @ [LineTo x y]"

definition path_ellipse ::
  "real \<Rightarrow> real \<Rightarrow> real \<Rightarrow> real \<Rightarrow> real \<Rightarrow> real \<Rightarrow> real \<Rightarrow> path \<Rightarrow> error + path" where
  "path_ellipse x y radiusX radiusY rotation startAngle endAngle p =
     (if radiusX < 0 \<or> radiusY < 0 then Inl IndexSizeError
      else Inr (p @ [Ellipse x y radiusX radiusY rotation startAngle endAngle]))"

text \<open>
  The point of an ellipse centred at the origin at a radian angle, in canvas coordinates:
  the angle is measured clockwise from the positive x axis and the y axis points down,
  so a negative y is above the centre.
\<close>

definition ellipse_point :: "real \<Rightarrow> real \<Rightarrow> real \<Rightarrow> real \<times> real" where
  "ellipse_point radiusX radiusY angle = (radiusX * cos angle, radiusY * sin angle)"

section \<open>Components\<close>

type_synonym position = "real \<times> real"

text \<open>
  The fields every component has, \<open>this.position\<close> and \<open>this.options\<close>. The record is
  polymorphic in the options so that a class whose code computes with option values
  (Sprite) can hold them with the types its option typedef declares.
\<close>

record 'o component =
  position :: position
  options :: 'o

text \<open>
  Modelled from the spec: the constructor of \<open>Component\<close> is not among the sources. It
  stores the position (an absent position definition is the origin) and resolves the
  options once, by the recursive merge of the instance's overrides into the defaults of
  the class: an override takes precedence over a default, and two objects under the same
  key merge key by key.
\<close>

definition Position_from :: "position option \<Rightarrow> position" where
  "Position_from d = (case d of None \<Rightarrow> (0, 0) | Some p \<Rightarrow> p)"

definition resolve :: "object \<Rightarrow> object option \<Rightarrow> object" where
  "resolve defaults overrides =
     deep_merge defaults (case overrides of None \<Rightarrow> [] | Some ov \<Rightarrow> ov)"

definition Component_new :: "object \<Rightarrow> position option \<Rightarrow> object option \<Rightarrow> object component" where
  "Component_new defaults positionDefinition opts =
     \<lparr>position = Position_from positionDefinition, options = resolve defaults opts\<rparr>"

subsection \<open>Rectangle (rectangle.ts)\<close>

record 'o rectangle = "'o component" +
  width :: real
  height :: real

definition Rectangle_new ::
  "object \<Rightarrow> position option \<Rightarrow> real option \<Rightarrow> real option \<Rightarrow> object option \<Rightarrow> object rectangle" where
  "Rectangle_new defaults positionDefinition w h opts =
     component.extend (Component_new defaults positionDefinition opts)
       (rectangle.fields (case w of None \<Rightarrow> 0 | Some v \<Rightarrow> v) (case h of None \<Rightarrow> 0 | Some v \<Rightarrow> v))"

text \<open>\<open>trace\<close> draws on the path it is given and returns the rectangle itself.\<close>

definition Rectangle_trace ::
  "('o, 'a) rectangle_scheme \<Rightarrow> path \<Rightarrow> ('o, 'a) rectangle_scheme \<times> path" where
  "Rectangle_trace r p = (r, path_rect 0 0 (width r) (height r) p)"

subsection \<open>Line (line.ts)\<close>


record line = "object component" +
  points :: "position list"




definition Line_trace :: "line \<Rightarrow> path \<Rightarrow> line \<times> path" where
  "Line_trace l p =
     (l, foldl (\<lambda>q point. path_lineTo (fst point) (snd point) q) (path_moveTo 0 0 p) (points l))"

subsection \<open>Arc (part_002)\<close>

record arc = "object component" +
  horizontalRadius :: real
  verticalRadius :: real
  startAngle :: real
  endAngle :: real


text \<open>
  \<open>trace\<close> shifts both angles by the correction, scales them by \<open>radianCircle\<close> and
  hands them with the two radii, as they are, to \<open>path.ellipse\<close>; an exception of
  \<open>ellipse\<close> leaves \<open>trace\<close>.
\<close>

definition Arc_trace :: "arc \<Rightarrow> path \<Rightarrow> error + arc \<times> path" where
  "Arc_trace a p =
     (let correction = - 0.25;
          start = (startAngle a + correction) * radianCircle;
          stop = (endAngle a + correction) * radianCircle
      in case path_ellipse 0 0 (horizontalRadius a) (verticalRadius a) 0 start stop p of
           Inl e \<Rightarrow> Inl e
         | Inr q \<Rightarrow> Inr (a, q))"

section \<open>Default options\<close>

text \<open>
  What the classes below take from classes that are not among the sources: the default
  options of \<open>Component\<close>, \<open>Image\<close> and \<open>Input\<close>, the static table \<open>joins\<close> that
  \<open>Line.joins\<close> resolves to (line.ts declares \<open>caps\<close> only, so the lookup goes to the
  superclass), the cursor \<open>Component.cursors.pointer\<close>, the rectangle that the constructor
  of \<open>Input\<close> creates as \<open>this.background\<close> (given the resolved options of the
  input) and the measurement of a text, which depends on the font metrics of the canvas.
\<close>

record environment =
  Component_defaultOptions :: object
  Component_joins :: object
  Component_pointer :: jsval
  Image_defaultOptions :: object
  Input_defaultOptions :: object
  Input_background :: "object \<Rightarrow> object rectangle"
  measureText :: "string \<Rightarrow> object \<Rightarrow> real \<times> real"

definition Text_alignments :: object where
  "Text_alignments =
     [(''left'', String ''left''), (''right'', String ''right''), (''center'', String ''center''),
      (''start'', String ''start''), (''end'', String ''end'')]"

definition Text_defaultOptions :: "environment \<Rightarrow> object" where
  "Text_defaultOptions E =
     spread (Component_defaultOptions E)
       [(''font'', String ''sans-serif''),
        (''fontSize'', Number 20),
        (''align'', get_prop Text_alignments ''start''),
        (''bold'', Boolean False),
        (''italic'', Boolean False),
        (''underscore'', Boolean False),
        (''lineHeight'', Number 1)]"

definition Line_caps :: object where
  "Line_caps = [(''butt'', String ''butt''), (''round'', String ''round''), (''square'', String ''square'')]"

text \<open>
  \<open>Line.defaultOptions\<close> builds the object and then assigns \<open>stroke\<close> from the \<open>fill\<close>
  of the superclass's defaults.
\<close>

definition Line_defaultOptions :: "environment \<Rightarrow> object" where
  "Line_defaultOptions E =
     (let options =
        spread (Component_defaultOptions E)
          [(''cap'', get_prop Line_caps ''round''),
           (''join'', get_prop (Component_joins E) ''round''),
           (''fill'', Null),
           (''cursor'', Null)]
      in AList.update ''stroke'' (get_prop (Component_defaultOptions E) ''fill'') options)"

definition Arc_defaultOptions :: "environment \<Rightarrow> object" where
  "Arc_defaultOptions E = spread (Line_defaultOptions E) [(''join'', Null)]"

definition Arc_caps :: object where
  "Arc_caps = Line_caps"

definition Sprite_defaultOptions :: "environment \<Rightarrow> object" where
  "Sprite_defaultOptions E =
     spread (Image_defaultOptions E) [(''speed'', Number 1), (''loop'', Boolean True)]"

definition Button_defaultOptions :: "environment \<Rightarrow> object" where
  "Button_defaultOptions E =
     spread (spread (Text_defaultOptions E) (Input_defaultOptions E)) [(''value'', String [])]"

definition Select_defaultOptions :: "environment \<Rightarrow> object" where
  "Select_defaultOptions E =
     spread (spread (Text_defaultOptions E) (Input_defaultOptions E)) [(''value'', Number 0)]"

definition Select_MARGIN :: real where
  "Select_MARGIN = 0.2"

section \<open>Text: the text accessor pair (text.ts)\<close>

text \<open>
  \<open>String.prototype.split("\n")\<close>: the pieces between the occurrences of the line
  feed; the empty string gives one empty piece.
\<close>

definition separator :: char where
  "separator = CHR 0x0A"

fun split :: "string \<Rightarrow> string list" where
  "split [] = [[]]"
| "split (c # cs) =
     (if c = separator then [] # split cs
      else (case split cs of [] \<Rightarrow> [[c]] | l # ls \<Rightarrow> (c # l) # ls))"

text \<open>\<open>Array.prototype.join("\n")\<close>.\<close>

fun join :: "string list \<Rightarrow> string" where
  "join [] = []"
| "join [l] = l"
| "join (l # m # ls) = l @ separator # join (m # ls)"

text \<open>The argument of \<open>formatString\<close> is a string or an array of strings.\<close>

datatype text_arg = Single string | Multiple "string list"

text \<open>
  \<open>formatString\<close>: an array is reduced from the left, each element being split and
  its pieces appended to the accumulator; a string is split.
\<close>

fun formatString :: "text_arg \<Rightarrow> string list" where
  "formatString (Multiple a) = foldl (\<lambda>acc line. acc @ split line) [] a"
| "formatString (Single s) = split s"

record text_component = "object component" +
  lines :: "string list"
  path :: "path option"

text \<open>The getter \<open>text\<close> and the setter \<open>text = ...\<close>.\<close>

definition get_text :: "'a text_component_scheme \<Rightarrow> string" where
  "get_text t = join (lines t)"

definition set_text :: "text_arg \<Rightarrow> 'a text_component_scheme \<Rightarrow> 'a text_component_scheme" where
  "set_text v t = t\<lparr>lines := formatString v\<rparr>"

text \<open>
  The constructor stores no lines and then assigns the text (the empty string when none is
  given). It also announces the font with a network event, which is not modelled.
\<close>

definition Text_new ::
  "environment \<Rightarrow> position option \<Rightarrow> text_arg option \<Rightarrow> object option \<Rightarrow> text_component" where
  "Text_new E positionDefinition txt opts =
     set_text (case txt of None \<Rightarrow> Single [] | Some v \<Rightarrow> v)
       (component.extend (Component_new (Text_defaultOptions E) positionDefinition opts)
          (text_component.fields [] None))"

text \<open>
  \<open>Text.measure\<close> joins an array, resolves the options over the defaults of \<open>Text\<close>
  and asks the measurement for the pair (width, height).
\<close>

definition Text_measure :: "environment \<Rightarrow> text_arg \<Rightarrow> object \<Rightarrow> real \<times> real" where
  "Text_measure E txt opts =
     (let string = (case txt of Multiple a \<Rightarrow> join a | Single s \<Rightarrow> s);
          opts' = spread (Text_defaultOptions E) opts
      in measureText E string opts')"

definition Text_getMeasures :: "environment \<Rightarrow> 'a text_component_scheme \<Rightarrow> real \<times> real" where
  "Text_getMeasures E t = Text_measure E (Single (get_text t)) (options t)"

definition Text_width :: "environment \<Rightarrow> 'a text_component_scheme \<Rightarrow> real" where
  "Text_width E t = fst (Text_getMeasures E t)"

definition Text_height :: "environment \<Rightarrow> 'a text_component_scheme \<Rightarrow> real" where
  "Text_height E t = snd (Text_getMeasures E t)"

text \<open>\<open>trace\<close> draws the bounding rectangle, keeps the path in \<open>this.path\<close> and returns it.\<close>

definition Text_trace ::
  "environment \<Rightarrow> 'a text_component_scheme \<Rightarrow> path \<Rightarrow> 'a text_component_scheme \<times> path" where
  "Text_trace E t p =
     (let q = path_rect 0 0 (Text_width E t) (Text_height E t) p
      in (t\<lparr>path := Some q\<rparr>, q))"

subsection \<open>Drawing a text (text.ts, makePath)\<close>

text \<open>
  What \<open>Text.makePath\<close> takes from outside the sources: \<open>super.setContext\<close> (of
  \<open>Component\<close>), which prepares the drawing context for the component and answers
  whether it will fill and whether it will stroke; the root of the text, given as the
  direction of the text of its canvas when the root is a scene and as nothing otherwise
  (\<open>getRoot\<close>, \<open>isScene\<close> and the package text-direction); the conversions of the
  language that depend on the value: of a string, an array or an object to a number, of
  a value in a template string, and the method \<open>toString\<close> of a value that is not a
  string, which may throw.
\<close>

record host =
  Component_setContext :: "position \<Rightarrow> object \<Rightarrow> bool \<times> bool"
  root_direction :: "string option"
  host_ToNumber :: "jsval \<Rightarrow> number"
  host_ToString :: "jsval \<Rightarrow> string"
  host_toString :: "jsval \<Rightarrow> error + string"

fun ToNumber :: "host \<Rightarrow> jsval \<Rightarrow> number" where
  "ToNumber H Undefined = NaN"
| "ToNumber H Null = Finite 0"
| "ToNumber H (Boolean b) = Finite (if b then 1 else 0)"
| "ToNumber H (Number r) = Finite r"
| "ToNumber H v = host_ToNumber H v"

fun ToString :: "host \<Rightarrow> jsval \<Rightarrow> string" where
  "ToString H (String s) = s"
| "ToString H v = host_ToString H v"

text \<open>
  \<open>value.toString(ctx)\<close>: reading a property of \<open>undefined\<close> or \<open>null\<close> raises
  \<open>TypeError\<close>, a string is itself.
\<close>

fun toString :: "host \<Rightarrow> jsval \<Rightarrow> error + string" where
  "toString H Undefined = Inl TypeError"
| "toString H Null = Inl TypeError"
| "toString H (String s) = Inr s"
| "toString H v = host_toString H v"

text \<open>
  A drawing context \<open>ctx\<close> is modelled by the list of the calls made on it and of the
  properties assigned to it, in order. \<open>SuperSetContext\<close> stands for what
  \<open>super.setContext(ctx)\<close> does to the context.
\<close>

datatype context_call =
    Save
  | Restore
  | BeginPath
  | ClosePath
  | Stroke
  | SuperSetContext
  | Font string
  | TextAlign jsval
  | TextBaseline string
  | Translate real real
  | FillText string real number
  | StrokeText string real number
  | ContextMoveTo real number
  | ContextLineTo real number
  | LineWidth number
  | StrokeStyle string

type_synonym canvas_context = "context_call list"

definition Text_getFontDefinition :: "host \<Rightarrow> object \<Rightarrow> string" where
  "Text_getFontDefinition H opts =
     (if truthy (get_prop opts ''bold'') then ''bold '' else []) @
     (if truthy (get_prop opts ''italic'') then ''italic '' else []) @
     ToString H (get_prop opts ''fontSize'') @ ''px '' @ ToString H (get_prop opts ''font'')"

definition Text_setContext ::
  "host \<Rightarrow> 'a text_component_scheme \<Rightarrow> canvas_context \<Rightarrow> canvas_context \<times> bool \<times> bool" where
  "Text_setContext H t ctx =
     (let (willFill, willStroke) = Component_setContext H (position t) (options t);
          ctx1 = ctx @ [SuperSetContext];
          ctx2 = (if willFill \<or> willStroke
                  then ctx1 @ [Font (Text_getFontDefinition H (options t)),
                               TextAlign (get_prop (options t) ''align''),
                               TextBaseline ''top'']
                  else ctx1)
      in (ctx2, willFill, willStroke))"

definition Text_getAlignOffset :: "host \<Rightarrow> 'a text_component_scheme \<Rightarrow> real" where
  "Text_getAlignOffset H t =
     (let align = get_prop (options t) ''align''
      in if align = get_prop Text_alignments ''center'' then 0.5
         else if align = get_prop Text_alignments ''right'' then 1
         else if align = get_prop Text_alignments ''start'' \<or>
                 align = get_prop Text_alignments ''end'' then
           (case root_direction H of
              None \<Rightarrow> 0
            | Some dir \<Rightarrow>
                if (align = get_prop Text_alignments ''start'' \<and> dir = ''rtl'') \<or>
                   (align = get_prop Text_alignments ''end'' \<and> dir = ''ltr'')
                then 1 else 0)
         else 0)"

text \<open>
  The body of the \<open>forEach\<close> of \<open>makePath\<close>: what one line of the text, at its index,
  draws.
\<close>

definition Text_draw_line ::
  "environment \<Rightarrow> object \<Rightarrow> bool \<Rightarrow> bool \<Rightarrow> real \<Rightarrow> number \<Rightarrow> number \<Rightarrow> real \<Rightarrow>
   string \<times> nat \<Rightarrow> canvas_context" where
  "Text_draw_line E opts willFill willStroke lineHeight height_of_line margin offset li =
     (case li of (line, index) \<Rightarrow>
        (let y = number_plus (Finite (real index * lineHeight)) margin
         in (if willFill then [FillText line 0 y] else []) @
            (if willStroke then [StrokeText line 0 y] else []) @
            (if truthy (get_prop opts ''underscore'') then
               (let width_of_line = fst (Text_measure E (Single line) opts);
                    left_of_line = offset * width_of_line
                in [ContextMoveTo (- left_of_line) (number_plus y height_of_line),
                    ContextLineTo (width_of_line - left_of_line) (number_plus y height_of_line)])
             else [])))"

text \<open>
  \<open>makePath\<close> draws the text into the context and returns the text itself; the result
  holds the text as the call leaves it and the context. When it throws, on the
  \<open>toString\<close> of the colour of the underscore, the context has not been restored.
  The locals \<open>height\<close>, \<open>width\<close> and \<open>left\<close> of the source are
  \<open>height_of_line\<close>, \<open>width_of_line\<close> and \<open>left_of_line\<close> here.
\<close>

definition Text_makePath ::
  "host \<Rightarrow> environment \<Rightarrow> 'a text_component_scheme \<Rightarrow> canvas_context \<Rightarrow>
   error + 'a text_component_scheme \<times> canvas_context" where
  "Text_makePath H E t ctx =
     (let opts = options t
      in if get_text t \<noteq> [] \<and>
            (truthy (get_prop opts ''fill'') \<or>
             (truthy (get_prop opts ''stroke'') \<and>
              number_greater (ToNumber H (get_prop opts ''strokeWidth'')) 0))
         then
           (case Text_setContext H t (ctx @ [Save]) of (ctx2, willFill, willStroke) \<Rightarrow>
              if willFill \<or> willStroke then
                (let lineHeight = snd (Text_measure E (Single ''M'') (options t));
                     height_of_line = number_divide (Finite lineHeight)
                                (ToNumber H (get_prop opts ''lineHeight''));
                     margin = number_times height_of_line
                                (number_divide
                                   (number_minus (ToNumber H (get_prop opts ''lineHeight'')) (Finite 1))
                                   (Finite 2));
                     ctx3 = (if truthy (get_prop opts ''underscore'') then ctx2 @ [BeginPath]
                             else ctx2);
                     offset = Text_getAlignOffset H t;
                     ctx4 = ctx3 @ [Translate (offset * Text_width E t) 0];
                     ctx5 = ctx4 @ concat (map
                              (Text_draw_line E opts willFill willStroke lineHeight height_of_line margin offset)
                              (zip (lines t) [0 ..< length (lines t)]))
                 in if truthy (get_prop opts ''underscore'') then
                      (let ctx6 = ctx5 @ [LineWidth (number_times height_of_line
                                    (Finite (if truthy (get_prop opts ''bold'') then 0.07 else 0.05)))];
                           stroke = (if willStroke then get_prop opts ''stroke'' else Boolean False);
                           style = (if truthy stroke then stroke else get_prop opts ''fill'')
                       in case toString H style of
                            Inl e \<Rightarrow> Inl e
                          | Inr colour \<Rightarrow>
                              Inr (t, ctx6 @ [StrokeStyle colour, Stroke, ClosePath, Restore]))
                    else Inr (t, ctx5 @ [Restore]))
              else Inr (t, ctx2 @ [Restore]))
         else Inr (t, ctx))"

section \<open>Sprite (part_001)\<close>

text \<open>
  A frame of the sprite sheet is a region \<open>x y w h\<close>; the data of one frame holds the
  region in the sheet (\<open>frame\<close>) and the region of the original file
  (\<open>spriteSourceSize\<close>).
\<close>

datatype region = Region real real real real

datatype frame_data = FrameData region region

text \<open>
  The options of a sprite that its code computes with, typed as the typedef
  \<open>SpriteOptions\<close> declares them: \<open>speed\<close> is a number and \<open>loop\<close> a boolean.
\<close>

record sprite_options =
  speed :: real
  loop :: bool

text \<open>
  Of the superclass \<open>Image\<close>, which is not among the sources, a sprite uses the size
  inherited from the rectangle, the loaded file and the flag \<open>isLoaded\<close>.
\<close>

record 'o image = "'o rectangle" +
  image_file :: string
  isLoaded :: bool

record sprite = "sprite_options image" +
  frames :: "frame_data list"
  frame :: real
  isPaused :: bool


text \<open>
  \<open>this.frames[Math.floor(this.frame)]\<close>: an index outside the array reads
  \<open>undefined\<close>, and destructuring \<open>undefined\<close> raises \<open>TypeError\<close>.
\<close>

definition frame_at :: "frame_data list \<Rightarrow> int \<Rightarrow> error + frame_data" where
  "frame_at frms i = (if 0 \<le> i \<and> i < int (length frms) then Inr (frms ! nat i) else Inl TypeError)"

datatype draw_call = DrawImage string real real real real real real real real

definition Sprite_draw :: "sprite \<Rightarrow> error + draw_call list" where
  "Sprite_draw s =
     (case frame_at (frames s) \<lfloor>frame s\<rfloor> of
        Inl e \<Rightarrow> Inl e
      | Inr (FrameData (Region fx fy fw fh) (Region sx sy sw sh)) \<Rightarrow>
          Inr [DrawImage (image_file s) fx fy fw fh sx sy (width s) (height s)])"

definition play :: "real option \<Rightarrow> sprite \<Rightarrow> sprite" where
  "play spd s =
     (let s1 = s\<lparr>isPaused := False\<rparr>
      in case spd of None \<Rightarrow> s1 | Some v \<Rightarrow> s1\<lparr>options := (options s1)\<lparr>speed := v\<rparr>\<rparr>)"

definition pause :: "sprite \<Rightarrow> sprite" where
  "pause s = s\<lparr>isPaused := True\<rparr>"

definition setFrame :: "real \<Rightarrow> sprite \<Rightarrow> sprite" where
  "setFrame f s = s\<lparr>frame := modulo f (real (length (frames s)))\<rparr>"

text \<open>
  Modelled from the spec: \<open>Image.makePath\<close> is not among the sources. Painting comes
  first in a frame tick and shows the state before the step: for a loaded image the
  inherited \<open>makePath\<close> paints by calling the \<open>draw\<close> method of the instance, and it
  paints nothing while the image is not loaded.
\<close>

definition Image_makePath ::
  "(('o, 'a) image_scheme \<Rightarrow> error + draw_call list) \<Rightarrow> ('o, 'a) image_scheme \<Rightarrow> error + draw_call list" where
  "Image_makePath draw img = (if isLoaded img then draw img else Inr [])"

definition Sprite_events_frame :: string where
  "Sprite_events_frame = ''sprite-frame''"

definition Sprite_events_end :: string where
  "Sprite_events_end = ''sprite-end''"

text \<open>
  \<open>makePath\<close> returns the sprite as the call leaves it, what has been painted and the
  names of the events fired, in order.
\<close>

definition Sprite_makePath :: "sprite \<Rightarrow> error + sprite \<times> draw_call list \<times> string list" where
  "Sprite_makePath s =
     (case frame_at (frames s) \<lfloor>frame s\<rfloor> of
        Inl e \<Rightarrow> Inl e
      | Inr (FrameData _ (Region sx sy sw sh)) \<Rightarrow>
          (let s1 = s\<lparr>width := sw, height := sh\<rparr>
           in case Image_makePath Sprite_draw s1 of
                Inl e \<Rightarrow> Inl e
              | Inr painted \<Rightarrow>
                  if isLoaded s1 then
                    (let frameNumber = \<lfloor>frame s1\<rfloor>;
                         s2 = (if \<not> isPaused s1 \<and>
                                  (loop (options s1) \<or> frame s1 < real (length (frames s1)) - 1)
                               then setFrame (frame s1 + speed (options s1)) s1
                               else s1);
                         nextFrame = \<lfloor>frame s2\<rfloor>;
                         fired =
                           (if nextFrame \<noteq> frameNumber then
                              [Sprite_events_frame] @
                              (if \<not> loop (options s2) \<and> nextFrame = int (length (frames s2)) - 1
                               then [Sprite_events_end] else [])
                            else [])
                     in Inr (s2, painted, fired))
                  else Inr (s1, painted, [])))"

section \<open>Select (part_001)\<close>

text \<open>
  Modelled from the spec: \<open>Component.hide\<close> and \<open>Component.show\<close> are not among the
  sources. The visibility of a component is its flag \<open>shown\<close>, which the library keeps
  in the options (navigation.test.js reads \<open>options.shown\<close>).
\<close>

definition hide :: "(object, 'a) component_scheme \<Rightarrow> (object, 'a) component_scheme" where
  "hide c = c\<lparr>options := AList.update ''shown'' (Boolean False) (options c)\<rparr>"

definition show_component :: "(object, 'a) component_scheme \<Rightarrow> (object, 'a) component_scheme" where
  "show_component c = c\<lparr>options := AList.update ''shown'' (Boolean True) (options c)\<rparr>"

text \<open>
  Modelled from the spec: the constructor of \<open>Input\<close> is not among the sources. It is a
  component constructor (position and resolved options) that also creates the rectangle
  \<open>this.background\<close>. The listener that it sets on the attach event of the input is
  modelled with the serialisation, as \<open>Select_attached\<close>.
\<close>

record input = "object component" +
  background :: "object rectangle"

definition Input_new :: "environment \<Rightarrow> object \<Rightarrow> position option \<Rightarrow> object option \<Rightarrow> input" where
  "Input_new E defaults positionDefinition opts =
     (let this = Component_new defaults positionDefinition opts
      in component.extend this (input.fields (Input_background E (options this))))"

text \<open>
  A select keeps the selected index under a private key, the text that displays the
  selection, one text per option, the container of the option rows (hidden until the
  select is clicked) and the rows themselves. The arrow drawn on the background and the
  origin that the option texts share through their options are left out of the record.
\<close>

record select = input +
  selected :: number
  display :: text_component
  optionsList :: "text_component list"
  optionsContainer :: "object rectangle"
  optionRows :: "object rectangle list"

text \<open>\<open>Math.max(...ws)\<close> of a non-empty array.\<close>

definition Math_max :: "real list \<Rightarrow> real" where
  "Math_max ws = foldl max (hd ws) (tl ws)"

text \<open>
  The loop that creates one row per option text: each row is a rectangle placed under the
  previous one, and \<open>position\<close> accumulates the heights.
\<close>

definition add_row ::
  "environment \<Rightarrow> object \<Rightarrow> real \<Rightarrow> real \<Rightarrow> object rectangle list \<times> real \<Rightarrow> text_component \<Rightarrow>
   object rectangle list \<times> real" where
  "add_row E this_options maxWidth margin acc txt =
     (let rows = fst acc; position = snd acc;
          rect = Rectangle_new (Component_defaultOptions E) (Some (1, position + 1))
                   (Some (maxWidth + (6 * margin) - 2)) (Some (Text_height E txt + (2 * margin)))
                   (Some [(''fill'', get_prop this_options ''background''),
                          (''cursor'', Component_pointer E)])
      in (rows @ [rect], position + height rect))"

text \<open>
  The constructor. The test of the list is its first statement, before the constructor of
  the superclass runs. An element of the list is a string, for which \<open>option || ""\<close>
  is the string itself. Not modelled: the entry \<open>origin\<close> of the text options (one
  position object shared by all the texts and moved after they are built), the hover and
  leave listeners of the rows, and the arrow.
\<close>

definition Select_new ::
  "environment \<Rightarrow> position option \<Rightarrow> string list \<Rightarrow> object option \<Rightarrow> error + select" where
  "Select_new E positionDefinition optionsList_arg opts =
     (if length optionsList_arg = 0
      then Inl (RangeError ''Options list should have at least one item.'')
      else
        (let this = Input_new E (Select_defaultOptions E) positionDefinition opts;
             textOptions =
               [(''cursor'', Component_pointer E),
                (''fill'', get_prop (options this) ''fill''),
                (''font'', get_prop (options this) ''font''),
                (''fontSize'', get_prop (options this) ''fontSize''),
                (''align'', get_prop (options this) ''align''),
                (''bold'', get_prop (options this) ''bold''),
                (''italic'', get_prop (options this) ''italic''),
                (''underscore'', get_prop (options this) ''underscore''),
                (''lineHeight'', get_prop (options this) ''lineHeight'')];
             margin = snd (Text_measure E (Single ''M'') textOptions) * Select_MARGIN;
             display_text = Text_new E (Some (margin * 2, margin)) (Some (Single [])) (Some textOptions);
             texts = map (\<lambda>option. Text_new E (Some (margin * 2, margin)) (Some (Single option))
                                     (Some textOptions)) optionsList_arg;
             maxWidth = Math_max (map (Text_width E) texts);
             bg = (background this)\<lparr>width := maxWidth + (6 * margin),
                                     height := Text_height E (texts ! 0) + (2 * margin)\<rparr>;
             container = hide (Rectangle_new (Component_defaultOptions E) None (Some (width bg))
                                 (Some 0) (Some (options bg)));
             rows = foldl (add_row E (options this) maxWidth margin) ([], 0) texts
         in Inr (input.extend (this\<lparr>background := bg\<rparr>)
                   (select.fields 0 display_text texts
                      (container\<lparr>height := snd rows + 2\<rparr>) (fst rows)))))"

text \<open>The getter \<open>value\<close>.\<close>

definition Select_get_value :: "select \<Rightarrow> number" where
  "Select_get_value s = selected s"

text \<open>
  \<open>list[i]\<close> for a number \<open>i\<close>: an element when \<open>i\<close> is an index of the array,
  \<open>undefined\<close> otherwise (also for a number that is not whole).
\<close>

definition element_at :: "'a list \<Rightarrow> real \<Rightarrow> 'a option" where
  "element_at xs i =
     (if i = of_int \<lfloor>i\<rfloor> \<and> 0 \<le> i \<and> i < real (length xs) then Some (xs ! nat \<lfloor>i\<rfloor>) else None)"

text \<open>
  The setter \<open>value = v\<close>. It stores the constrained number first, whatever it is;
  reading \<open>.text\<close> of a missing option (the stored number is NaN or is not whole) then
  raises \<open>TypeError\<close>, with the number already stored. The result is the select as the
  assignment leaves it and the exception, if one was raised.
\<close>

definition Select_set_value :: "environment \<Rightarrow> number \<Rightarrow> select \<Rightarrow> select \<times> error option" where
  "Select_set_value E v s =
     (let s1 = s\<lparr>selected := constrain v 0 (Finite (real (length (optionsList s)) - 1))\<rparr>
      in case selected s1 of
           Finite i \<Rightarrow>
             (case element_at (optionsList s1) i of
                None \<Rightarrow> (s1, Some TypeError)
              | Some chosen \<Rightarrow>
                  (let s2 = s1\<lparr>display := set_text (Single (get_text chosen)) (display s1)\<rparr>;
                       s3 = s2\<lparr>optionsContainer := hide (optionsContainer s2)\<rparr>;
                       first_height = Text_height E (optionsList s3 ! 0);
                       margin = first_height * Select_MARGIN
                   in (s3\<lparr>optionsContainer := (optionsContainer s3)
                             \<lparr>position := (0, - i * (first_height + (2 * margin)))\<rparr>\<rparr>,
                       None)))
         | _ \<Rightarrow> (s1, Some TypeError))"

text \<open>\<open>click\<close> opens the list of options.\<close>

definition Select_click :: "select \<Rightarrow> select" where
  "Select_click s = s\<lparr>optionsContainer := show_component (optionsContainer s)\<rparr>"

text \<open>The click listener of the row of index \<open>index\<close> assigns the value, then fires the change event.\<close>

definition row_click :: "environment \<Rightarrow> nat \<Rightarrow> select \<Rightarrow> select \<times> error option" where
  "row_click E index s = Select_set_value E (Finite (real index)) s"

text \<open>The selected value of a select is an index of its options: a whole number from 0 to n - 1.\<close>

definition selects_index :: "select \<Rightarrow> bool" where
  "selects_index s =
     (case selected s of
        Finite i \<Rightarrow> i = of_int \<lfloor>i\<rfloor> \<and> 0 \<le> i \<and> i \<le> real (length (optionsList s)) - 1
      | _ \<Rightarrow> False)"

section \<open>Serialisation\<close>















subsection \<open>Sprite\<close>





subsection \<open>Select\<close>







subsection \<open>Trees\<close>



















section \<open>The geometry pipeline of the shapes\<close>

datatype shape =
    Rectangle_shape "object rectangle"
  | Line_shape line
  | Arc_shape arc
  | Text_shape text_component
  | Sprite_shape sprite

datatype geometry = Traced path | Drawn canvas_context | Painted "draw_call list"

text \<open>
  Modelled from the spec: \<open>computePath\<close> is the polymorphic operation that makes the
  geometry of a component; the dispatch (\<open>Component.makePath\<close>) is not among the
  sources. A class that provides only \<open>trace\<close> (Rectangle, Line, Arc) traces on a
  fresh path; Text and Sprite override \<open>makePath\<close> itself, Text drawing into the
  context. The result is the component as the call leaves it, the geometry and the
  events fired.
\<close>

fun computePath :: "host \<Rightarrow> environment \<Rightarrow> shape \<Rightarrow> error + shape \<times> geometry \<times> string list" where
  "computePath H E (Rectangle_shape r) =
     (case Rectangle_trace r [] of (r', q) \<Rightarrow> Inr (Rectangle_shape r', Traced q, []))"
| "computePath H E (Line_shape l) =
     (case Line_trace l [] of (l', q) \<Rightarrow> Inr (Line_shape l', Traced q, []))"
| "computePath H E (Arc_shape a) =
     (case Arc_trace a [] of Inl e \<Rightarrow> Inl e | Inr (a', q) \<Rightarrow> Inr (Arc_shape a', Traced q, []))"
| "computePath H E (Text_shape t) =
     (case Text_makePath H E t [] of
        Inl e \<Rightarrow> Inl e
      | Inr (t', ctx) \<Rightarrow> Inr (Text_shape t', Drawn ctx, []))"
| "computePath H E (Sprite_shape s) =
     (case Sprite_makePath s of
        Inl e \<Rightarrow> Inl e
      | Inr (s', painted, fired) \<Rightarrow> Inr (Sprite_shape s', Painted painted, fired))"

text \<open>
  A call of \<open>computePath\<close> moves a component on when the component is a loaded sprite
  that is not paused, loops or has not reached its last frame, and whose frame plus speed
  is another frame.
\<close>

fun advances :: "shape \<Rightarrow> bool" where
  "advances (Sprite_shape s) =
     (isLoaded s \<and> \<not> isPaused s \<and>
      (loop (options s) \<or> frame s < real (length (frames s)) - 1) \<and>
      modulo (frame s + speed (options s)) (real (length (frames s))) \<noteq> frame s)"
| "advances _ = False"

text \<open>
  A sprite with the width and the height of the original file of its current frame, which
  is what \<open>Sprite.makePath\<close> assigns first; every other shape as it is.
\<close>

fun sized :: "shape \<Rightarrow> shape" where
  "sized (Sprite_shape s) =
     (case frame_at (frames s) \<lfloor>frame s\<rfloor> of
        Inl e \<Rightarrow> Sprite_shape s
      | Inr (FrameData _ (Region sx sy sw sh)) \<Rightarrow> Sprite_shape (s\<lparr>width := sw, height := sh\<rparr>))"
| "sized sh = sh"

section \<open>The classes and their resolved options\<close>

datatype shape_class = Rectangle | Line | Arc | Text | Sprite | Button | Select

text \<open>
  The static getter \<open>defaultOptions\<close> of each class; Rectangle declares none and
  inherits the getter of \<open>Component\<close>.
\<close>

fun defaultOptions :: "environment \<Rightarrow> shape_class \<Rightarrow> object" where
  "defaultOptions E Rectangle = Component_defaultOptions E"
| "defaultOptions E Line = Line_defaultOptions E"
| "defaultOptions E Arc = Arc_defaultOptions E"
| "defaultOptions E Text = Text_defaultOptions E"
| "defaultOptions E Sprite = Sprite_defaultOptions E"
| "defaultOptions E Button = Button_defaultOptions E"
| "defaultOptions E Select = Select_defaultOptions E"

text \<open>The keys of an object, and whether an object binds one of its keys to \<open>undefined\<close>.\<close>

definition keys :: "object \<Rightarrow> string set" where
  "keys obj = fst ` set obj"

definition has_undefined :: "object \<Rightarrow> bool" where
  "has_undefined obj = (\<exists>k \<in> set (map fst obj). get_prop obj k = Undefined)"

text \<open>
  The default tables taken from outside the sources are well formed: none binds a key to
  \<open>undefined\<close>, \<open>Component\<close> has a default \<open>fill\<close>, and the table \<open>joins\<close> has the
  entry \<open>round\<close>.
\<close>

definition well_formed :: "environment \<Rightarrow> bool" where
  "well_formed E =
     (\<not> has_undefined (Component_defaultOptions E) \<and>
      \<not> has_undefined (Image_defaultOptions E) \<and>
      \<not> has_undefined (Input_defaultOptions E) \<and>
      get_prop (Component_defaultOptions E) ''fill'' \<noteq> Undefined \<and>
      get_prop (Component_joins E) ''round'' \<noteq> Undefined)"

text \<open>
  The numbers that clamp to an index of a list of \<open>n\<close> options: every number but NaN
  and the fractions strictly between 0 and \<open>n - 1\<close>.
\<close>

definition clamps_to_index :: "nat \<Rightarrow> number \<Rightarrow> bool" where
  "clamps_to_index n v =
     (case v of
        NaN \<Rightarrow> False
      | Finite r \<Rightarrow> r = of_int \<lfloor>r\<rfloor> \<or> r \<le> 0 \<or> real n - 1 \<le> r
      | _ \<Rightarrow> True)"

fun is_object :: "jsval \<Rightarrow> bool" where
  "is_object (Object _) = True"
| "is_object _ = False"

section \<open>Sample values\<close>

text \<open>
  An environment with a black default fill, the three joins of the canvas, a monospaced
  measurement (10 by 20 for every text) and an input whose background rectangle takes
  the options of the input.
\<close>

definition sample_environment :: environment where
  "sample_environment =
     \<lparr>Component_defaultOptions = [(''fill'', String ''#000''), (''shown'', Boolean True)],
      Component_joins = [(''miter'', String ''miter''), (''round'', String ''round''),
                         (''bevel'', String ''bevel'')],
      Component_pointer = String ''pointer'',
      Image_defaultOptions = [(''fill'', Null), (''shown'', Boolean True)],
      Input_defaultOptions = [(''fill'', String ''#444''), (''background'', String ''#f6f6f6'')],
      Input_background = (\<lambda>opts. Rectangle_new [] None None None (Some opts)),
      measureText = (\<lambda>string opts. (10, 20))\<rparr>"

text \<open>
  An environment in which \<open>Component\<close> has a nested default, the shadow, and the
  defaults of \<open>Input\<close> extend those of \<open>Component\<close>, so that Text and Input inherit
  the same nested object.
\<close>

definition library_environment :: environment where
  "library_environment =
     sample_environment
       \<lparr>Component_defaultOptions :=
          [(''fill'', String ''#000''), (''shown'', Boolean True),
           (''shadow'', Object [(''blur'', Number 0), (''color'', String ''#000'')])],
        Input_defaultOptions :=
          [(''fill'', String ''#444''), (''shown'', Boolean True),
           (''shadow'', Object [(''blur'', Number 0), (''color'', String ''#000'')]),
           (''background'', String ''#f6f6f6'')]\<rparr>"

text \<open>A loaded sprite of two frames of different sizes, playing in a loop at speed 1.\<close>

definition sample_sprite :: sprite where
  "sample_sprite =
     \<lparr>position = (0, 0), options = \<lparr>speed = 1, loop = True\<rparr>, width = 0, height = 0,
      image_file = ''sheet.png'', isLoaded = True,
      frames = [FrameData (Region 0 0 16 16) (Region 0 0 16 16),
                FrameData (Region 16 0 32 24) (Region 0 0 32 24)],
      frame = 0, isPaused = False\<rparr>"

text \<open>
  A host whose components fill when they have a fill and never stroke, in a scene written
  from left to right; it prints the number 20, and converts nothing else.
\<close>

definition sample_host :: host where
  "sample_host =
     \<lparr>Component_setContext = (\<lambda>p opts. (truthy (get_prop opts ''fill''), False)),
      root_direction = Some ''ltr'',
      host_ToNumber = (\<lambda>v. NaN),
      host_ToString = (\<lambda>v. if v = Number 20 then ''20'' else []),
      host_toString = (\<lambda>v. Inl TypeError)\<rparr>"

text \<open>The text hi with the default options.\<close>

definition sample_text :: text_component where
  "sample_text = Text_new sample_environment None (Some (Single ''hi'')) None"

text \<open>A select of the three options a, b and c.\<close>

definition sample_select :: select where
  "sample_select = projr (Select_new sample_environment None [''a'', ''b'', ''c''] None)"



definition sample_arc :: arc where
  "sample_arc =
     \<lparr>position = (0, 0), options = [], horizontalRadius = - 1, verticalRadius = 2,
      startAngle = 0, endAngle = 0.5\<rparr>"

section \<open>Properties of the text accessors\<close>

lemma split_not_Nil: "split s \<noteq> []"
  by (induction s) (auto split: list.splits)

lemma join_Cons: "ls \<noteq> [] \<Longrightarrow> join (l # ls) = l @ separator # join ls"
  by (cases ls) simp_all

lemma join_split: "join (split s) = s"
proof (induction s)
  case Nil
  show ?case by simp
next
  case (Cons c cs)
  show ?case
  proof (cases "c = separator")
    case True
    then show ?thesis using Cons by (simp add: join_Cons split_not_Nil)
  next
    case False
    obtain l ls where sp: "split cs = l # ls"
      using split_not_Nil [of cs] by (cases "split cs") auto
    have "join ((c # l) # ls) = c # join (l # ls)"
      by (cases ls) simp_all
    then show ?thesis using False Cons sp by simp
  qed
qed

lemma join_append:
  "xs \<noteq> [] \<Longrightarrow> ys \<noteq> [] \<Longrightarrow> join (xs @ ys) = join xs @ separator # join ys"
proof (induction xs rule: join.induct)
  case 1
  then show ?case by simp
next
  case (2 l)
  then show ?case by (simp add: join_Cons)
next
  case (3 l m ls)
  then show ?case by simp
qed

lemma foldl_split_not_Nil:
  "acc \<noteq> [] \<Longrightarrow> foldl (\<lambda>acc line. acc @ split line) acc a \<noteq> []"
  by (induction a arbitrary: acc) simp_all

lemma join_foldl_split:
  "acc \<noteq> [] \<Longrightarrow>
   join (foldl (\<lambda>acc line. acc @ split line) acc a) = join (acc @ a)"
proof (induction a arbitrary: acc)
  case Nil
  then show ?case by simp
next
  case (Cons x xs)
  have "join (foldl (\<lambda>acc line. acc @ split line) (acc @ split x) xs)
        = join ((acc @ split x) @ xs)"
    using Cons.prems by (intro Cons.IH) simp
  also have "\<dots> = join (acc @ (split x @ xs))" by simp
  also have "\<dots> = join acc @ separator # join (split x @ xs)"
    using Cons.prems by (intro join_append) (simp_all add: split_not_Nil)
  also have "join (split x @ xs) = join (x # xs)"
  proof (cases xs)
    case Nil
    then show ?thesis by (simp add: join_split)
  next
    case (Cons y ys)
    then show ?thesis
      by (simp add: join_append split_not_Nil join_split)
  qed
  also have "join acc @ separator # join (x # xs) = join (acc @ x # xs)"
    using Cons.prems by (simp add: join_append)
  finally show ?case by simp
qed

lemma join_formatString_Multiple: "join (formatString (Multiple a)) = join a"
proof (cases a)
  case Nil
  then show ?thesis by simp
next
  case (Cons x xs)
  have "join (foldl (\<lambda>acc line. acc @ split line) (split x) xs) = join (split x @ xs)"
    by (intro join_foldl_split) (rule split_not_Nil)
  also have "\<dots> = join (x # xs)"
  proof (cases xs)
    case Nil
    then show ?thesis by (simp add: join_split)
  next
    case (Cons y ys)
    then show ?thesis
      by (simp add: join_append split_not_Nil join_split)
  qed
  finally show ?thesis using Cons by simp
qed

text \<open>
  Claim C10. Assigning a string to \<open>text\<close> and reading \<open>text\<close> back returns the string
  unchanged; assigning an array of strings and reading back returns the elements joined
  with the line feed, also when elements contain line feeds themselves.
\<close>

theorem text_set_get:
  "get_text (set_text (Single s) t) = s \<and>
   get_text (set_text (Multiple a) t) = join a"
  by (simp add: get_text_def set_text_def join_split join_formatString_Multiple
      del: formatString.simps(1))

section \<open>Properties of the arc\<close>

text \<open>
  Claim C6. Angles are expressed in turns: \<open>trace\<close> hands to the canvas the radian angle
  \<open>(a - 0.25) * 2 * pi\<close> for a turn angle \<open>a\<close>, and on the ellipse the turn angle 0
  is the top, 0.5 the bottom and 1 the top again.
\<close>

theorem arc_trace_turns:
  "Arc_trace a p =
     (if horizontalRadius a < 0 \<or> verticalRadius a < 0 then Inl IndexSizeError
      else Inr (a, p @ [Ellipse 0 0 (horizontalRadius a) (verticalRadius a) 0
                         ((startAngle a - 0.25) * (2 * pi)) ((endAngle a - 0.25) * (2 * pi))]))
   \<and> ellipse_point rx ry ((0 - 0.25) * radianCircle) = (0, - ry)
   \<and> ellipse_point rx ry ((0.5 - 0.25) * radianCircle) = (0, ry)
   \<and> ellipse_point rx ry ((1 - 0.25) * radianCircle) = (0, - ry)"
proof -
  have q: "(0.5 - 0.25) * (2 * pi) = pi / 2" "(0 - 0.25) * (2 * pi) = - (pi / 2)"
    "(1 - 0.25) * (2 * pi) = 3 * pi / 2" by simp_all
  have c3: "cos (3 * pi / 2) = 0" using cos_3over2_pi by simp
  have s3: "sin (3 * pi / 2) = - 1" using sin_3over2_pi by simp
  show ?thesis
    unfolding ellipse_point_def radianCircle_def q
    by (simp add: Arc_trace_def path_ellipse_def radianCircle_def c3 s3 Let_def)
qed

text \<open>
  Claim C3, as the code has it. Tracing does not clamp or drop a radius: \<open>Arc.trace\<close>
  hands both radii to \<open>path.ellipse\<close> as they are, so it returns the path extended by
  that ellipse when both radii are non-negative and leaves with the \<open>IndexSizeError\<close>
  of the canvas when one is negative. Tracing a rectangle or a line always returns.
\<close>

theorem arc_trace_radii:
  "(0 \<le> horizontalRadius a \<and> 0 \<le> verticalRadius a \<longrightarrow>
      Arc_trace a p =
        Inr (a, p @ [Ellipse 0 0 (horizontalRadius a) (verticalRadius a) 0
                       ((startAngle a + - 0.25) * radianCircle)
                       ((endAngle a + - 0.25) * radianCircle)])) \<and>
   (horizontalRadius a < 0 \<or> verticalRadius a < 0 \<longrightarrow> Arc_trace a p = Inl IndexSizeError) \<and>
   snd (Rectangle_trace r p) = p @ [Rect 0 0 (width r) (height r)] \<and>
   snd (Line_trace l p) = p @ MoveTo 0 0 # map (\<lambda>point. LineTo (fst point) (snd point)) (points l)"
proof -
  have "foldl (\<lambda>q point. path_lineTo (fst point) (snd point) q) q0 ps
        = q0 @ map (\<lambda>point. LineTo (fst point) (snd point)) ps" for q0 ps
    by (induction ps arbitrary: q0) (simp_all add: path_lineTo_def)
  then show ?thesis
    by (simp add: Arc_trace_def path_ellipse_def Rectangle_trace_def path_rect_def
        Line_trace_def path_moveTo_def Let_def)
qed

text \<open>The theorem at an arc of radii 3 and 2, and at an arc of radii -1 and -2.\<close>

theorem arc_trace_radii_witness:
  "Arc_trace (sample_arc\<lparr>horizontalRadius := 3\<rparr>) [] =
     Inr (sample_arc\<lparr>horizontalRadius := 3\<rparr>,
          [Ellipse 0 0 3 2 0 ((0 + - 0.25) * radianCircle) ((0.5 + - 0.25) * radianCircle)]) \<and>
   Arc_trace (sample_arc\<lparr>verticalRadius := - 2\<rparr>) [MoveTo 0 0] = Inl IndexSizeError"
  using arc_trace_radii [of "sample_arc\<lparr>horizontalRadius := 3\<rparr>" "[]"
      "\<lparr>position = (0, 0), options = [], width = 1, height = 1\<rparr>"
      "\<lparr>position = (0, 0), options = [], points = []\<rparr>"]
    arc_trace_radii [of "sample_arc\<lparr>verticalRadius := - 2\<rparr>" "[MoveTo 0 0]"
      "\<lparr>position = (0, 0), options = [], width = 1, height = 1\<rparr>"
      "\<lparr>position = (0, 0), options = [], points = []\<rparr>"]
  by (auto simp: sample_arc_def)

text \<open>
  Claim C3 as stated fails: tracing an arc whose horizontal radius is -1 raises, the
  radius being neither clamped nor ignored.
\<close>

theorem arc_negative_radius_raises:
  "Arc_trace sample_arc [] = Inl IndexSizeError"
  by (simp add: Arc_trace_def path_ellipse_def sample_arc_def)

section \<open>Properties of the sprite\<close>

text \<open>
  A sprite whose frame lies within its frames stays so: \<open>makePath\<close> returns and leaves
  the frame within the frames. The constructor starts at frame 0, so on a sprite with at
  least one frame the lookup of the current frame always succeeds.
\<close>

lemma modulo_range:
  assumes "0 < n"
  shows "0 \<le> modulo v n \<and> modulo v n < n"
proof -
  have "of_int \<lfloor>v / n\<rfloor> * n \<le> v"
    by (metis assms of_int_floor_le pos_le_divide_eq)
  moreover have "v / n < of_int \<lfloor>v / n\<rfloor> + 1"
    by linarith
  then have "v < (of_int \<lfloor>v / n\<rfloor> + 1) * n"
    by (metis assms pos_divide_less_eq)
  ultimately show ?thesis by (simp add: modulo_def algebra_simps)
qed

lemma frame_at_in_range:
  assumes "0 \<le> frame s" "frame s < real (length (frames s))"
  shows "\<exists>fd. frame_at (frames s) \<lfloor>frame s\<rfloor> = Inr fd"
proof -
  from assms have "0 \<le> \<lfloor>frame s\<rfloor>" "\<lfloor>frame s\<rfloor> < int (length (frames s))"
    by (simp_all add: floor_less_iff)
  then show ?thesis by (simp add: frame_at_def)
qed

lemma Sprite_makePath_keeps_frame:
  assumes "0 \<le> frame s" "frame s < real (length (frames s))"
  shows "\<exists>s' painted fired. Sprite_makePath s = Inr (s', painted, fired) \<and>
           frames s' = frames s \<and> 0 \<le> frame s' \<and> frame s' < real (length (frames s'))"
proof -
  from frame_at_in_range [OF assms] obtain fd where fd: "frame_at (frames s) \<lfloor>frame s\<rfloor> = Inr fd"
    by blast
  obtain fx fy fw fh sx sy sw sh where d: "fd = FrameData (Region fx fy fw fh) (Region sx sy sw sh)"
    by (metis frame_data.exhaust region.exhaust)
  from assms have n: "0 < real (length (frames s))" by linarith
  show ?thesis
    using fd assms modulo_range [OF n, of "frame s + speed (options s)"]
    by (simp add: d Sprite_makePath_def Image_makePath_def Sprite_draw_def setFrame_def Let_def)
qed

text \<open>
  Claim C7. A loaded sprite paints before it steps: \<open>makePath\<close> draws the region of the
  frame that is current when it is called and only then advances the frame, once, by the
  speed, when the sprite is not paused and loops or has not reached its last frame; it
  does not advance a paused sprite; the frame event is fired exactly when the whole part
  of the frame has changed.
\<close>

theorem sprite_paints_then_steps:
  assumes cur: "frame_at (frames s) \<lfloor>frame s\<rfloor> = Inr (FrameData (Region fx fy fw fh) (Region sx sy sw sh))"
    and loaded: "isLoaded s"
  shows "\<exists>s' fired.
           Sprite_makePath s = Inr (s', [DrawImage (image_file s) fx fy fw fh sx sy sw sh], fired) \<and>
           frame s' =
             (if \<not> isPaused s \<and> (loop (options s) \<or> frame s < real (length (frames s)) - 1)
              then modulo (frame s + speed (options s)) (real (length (frames s)))
              else frame s) \<and>
           (Sprite_events_frame \<in> set fired \<longleftrightarrow> \<lfloor>frame s'\<rfloor> \<noteq> \<lfloor>frame s\<rfloor>) \<and>
           (isPaused s \<longrightarrow> frame s' = frame s \<and> fired = [])"
  using cur loaded
  by (simp add: Sprite_makePath_def Image_makePath_def Sprite_draw_def setFrame_def Let_def
      Sprite_events_frame_def Sprite_events_end_def)

text \<open>The theorem at the sample sprite, playing and paused.\<close>

theorem sprite_paints_then_steps_witness:
  "\<exists>s' fired.
     Sprite_makePath sample_sprite = Inr (s', [DrawImage ''sheet.png'' 0 0 16 16 0 0 16 16], fired) \<and>
     frame s' = 1 \<and> Sprite_events_frame \<in> set fired \<and>
     (\<exists>p. Sprite_makePath (pause sample_sprite) =
            Inr (p, [DrawImage ''sheet.png'' 0 0 16 16 0 0 16 16], []) \<and> frame p = 0)"
proof -
  have f: "frame_at (frames sample_sprite) \<lfloor>frame sample_sprite\<rfloor> =
      Inr (FrameData (Region 0 0 16 16) (Region 0 0 16 16))"
    by (simp add: sample_sprite_def frame_at_def)
  have l: "isLoaded sample_sprite" by (simp add: sample_sprite_def)
  have f': "frame_at (frames (pause sample_sprite)) \<lfloor>frame (pause sample_sprite)\<rfloor> =
      Inr (FrameData (Region 0 0 16 16) (Region 0 0 16 16))"
    by (simp add: sample_sprite_def frame_at_def pause_def)
  have l': "isLoaded (pause sample_sprite)" by (simp add: sample_sprite_def pause_def)
  have m: "modulo 1 2 = 1" by (simp add: modulo_def)
  from sprite_paints_then_steps [OF f l] sprite_paints_then_steps [OF f' l'] m
  show ?thesis
    by (auto simp: sample_sprite_def pause_def)
qed

section \<open>Properties of the select\<close>

lemma get_text_Text_new:
  "get_text (Text_new E pd (Some (Single s)) opts) = s"
  by (simp add: Text_new_def get_text_def set_text_def join_split)

lemma Select_new_Inr:
  assumes "l \<noteq> []"
  shows "\<exists>s. Select_new E pd l opts = Inr s \<and> selected s = 0 \<and>
             map get_text (optionsList s) = l"
  using assms
  by (simp add: Select_new_def Let_def input.extend_def select.fields_def
      get_text_Text_new comp_def split_def)

text \<open>
  Claim C8. Constructing a select with an empty list of options raises the
  \<open>RangeError\<close> and builds nothing; with a non-empty list the construction succeeds,
  with the first option selected and one text per option.
\<close>

theorem select_constructor:
  "Select_new E pd [] opts = Inl (RangeError ''Options list should have at least one item.'') \<and>
   (l \<noteq> [] \<longrightarrow>
      (\<exists>s. Select_new E pd l opts = Inr s \<and> Select_get_value s = 0 \<and>
           map get_text (optionsList s) = l))"
  using Select_new_Inr [of l E pd opts]
  by (simp add: Select_new_def Select_get_value_def)

text \<open>The theorem at the list of the two options a and b.\<close>

theorem select_constructor_witness:
  "[''a'', ''b''] \<noteq> ([] :: string list) \<and>
   (\<exists>s. Select_new sample_environment None [''a'', ''b''] None = Inr s \<and>
        Select_get_value s = 0 \<and> map get_text (optionsList s) = [''a'', ''b''])"
  using select_constructor [of sample_environment None None "[''a'', ''b'']"]
  by simp

lemma length_minus_one: "xs \<noteq> [] \<Longrightarrow> (0::real) \<le> real (length xs) - 1"
  by (cases xs) simp_all

lemma constrain_cases:
  "0 \<le> h \<Longrightarrow>
   constrain v 0 (Finite h) =
     (case v of NaN \<Rightarrow> NaN | NegInfinity \<Rightarrow> Finite 0 | PosInfinity \<Rightarrow> Finite h
      | Finite r \<Rightarrow> Finite (min (max r 0) h))"
  by (cases v) (simp_all add: constrain_def zero_number_def)

lemma set_value_selected:
  "selected (fst (Select_set_value E v s)) =
     constrain v 0 (Finite (real (length (optionsList s)) - 1))"
  by (simp add: Select_set_value_def Let_def split: option.splits number.splits)

lemma set_value_optionsList:
  "optionsList (fst (Select_set_value E v s)) = optionsList s"
  by (simp add: Select_set_value_def Let_def split: option.splits number.splits)

lemma Select_new_selects_index:
  assumes made: "Select_new E pd l opts = Inr s0"
  shows "selects_index s0 \<and> optionsList s0 \<noteq> []"
proof -
  from made have l: "l \<noteq> []" by (auto simp: Select_new_def split: if_splits)
  from Select_new_Inr [OF l, of E pd opts] made
  have sel: "selected s0 = 0" and texts: "map get_text (optionsList s0) = l" by auto
  from texts l have ne: "optionsList s0 \<noteq> []" by auto
  with sel length_minus_one [OF ne] show ?thesis
    by (simp add: selects_index_def zero_number_def)
qed

lemma set_value_raises:
  "snd (Select_set_value E v s) = None \<longleftrightarrow>
     (\<exists>i. selected (fst (Select_set_value E v s)) = Finite i \<and>
          element_at (optionsList s) i \<noteq> None)"
  by (auto simp: Select_set_value_def Let_def split: option.splits number.splits)

lemma set_value_raises_TypeError:
  "snd (Select_set_value E v s) = None \<or> snd (Select_set_value E v s) = Some TypeError"
  by (auto simp: Select_set_value_def Let_def split: option.splits number.splits)

lemma whole_clamp:
  assumes h: "h = of_int \<lfloor>h\<rfloor>" and r: "r = of_int \<lfloor>r\<rfloor> \<or> r \<le> 0 \<or> h \<le> r"
  shows "min (max r 0) h = of_int \<lfloor>min (max r 0) h\<rfloor>"
proof -
  have "min (max r 0) h = r \<or> min (max r 0) h = 0 \<or> min (max r 0) h = h"
    by (auto simp: min_def max_def)
  moreover have "min (max r 0) h = r \<Longrightarrow> r = of_int \<lfloor>r\<rfloor> \<or> r = 0 \<or> r = h"
    using r by (auto simp: min_def max_def split: if_splits)
  ultimately show ?thesis using h
    by (metis floor_of_int floor_zero of_int_0)
qed

lemma set_value_accepts:
  assumes ne: "optionsList s \<noteq> []" and ok: "clamps_to_index (length (optionsList s)) v"
  shows "selects_index (fst (Select_set_value E v s)) \<and> snd (Select_set_value E v s) = None"
proof -
  let ?h = "real (length (optionsList s)) - 1"
  have h0: "0 \<le> ?h" by (rule length_minus_one [OF ne])
  have hw: "?h = of_int \<lfloor>?h\<rfloor>"
  proof -
    have "?h = of_int (int (length (optionsList s)) - 1)" by simp
    then show ?thesis by (metis floor_of_int)
  qed
  obtain i where i: "constrain v 0 (Finite ?h) = Finite i"
    and iw: "i = of_int \<lfloor>i\<rfloor>" and i0: "0 \<le> i" and ih: "i \<le> ?h"
  proof (cases v)
    case NaN
    with ok show ?thesis by (simp add: clamps_to_index_def)
  next
    case NegInfinity
    with h0 show ?thesis by (intro that [of 0]) (simp_all add: constrain_cases)
  next
    case PosInfinity
    with h0 hw show ?thesis by (intro that [of ?h]) (simp_all add: constrain_cases)
  next
    case (Finite r)
    with ok have "r = of_int \<lfloor>r\<rfloor> \<or> r \<le> 0 \<or> ?h \<le> r"
      by (simp add: clamps_to_index_def)
    from whole_clamp [OF hw this] Finite h0 show ?thesis
      by (intro that [of "min (max r 0) ?h"]) (simp_all add: constrain_cases)
  qed
  from ih have "i < real (length (optionsList s))" by simp
  with iw i0 have "element_at (optionsList s) i \<noteq> None"
    by (simp add: element_at_def)
  with i iw i0 ih show ?thesis
    by (auto simp: selects_index_def set_value_selected set_value_optionsList set_value_raises)
qed

lemma set_value_rejects:
  assumes ne: "optionsList s \<noteq> []" and no: "\<not> clamps_to_index (length (optionsList s)) v"
  shows "\<not> selects_index (fst (Select_set_value E v s)) \<and>
         snd (Select_set_value E v s) = Some TypeError \<and>
         selected (fst (Select_set_value E v s)) = v"
proof -
  let ?h = "real (length (optionsList s)) - 1"
  have h0: "0 \<le> ?h" by (rule length_minus_one [OF ne])
  have st: "constrain v 0 (Finite ?h) = v \<and> (\<forall>i. v = Finite i \<longrightarrow> i \<noteq> of_int \<lfloor>i\<rfloor>)"
  proof (cases v)
    case (Finite r)
    with no have "r \<noteq> of_int \<lfloor>r\<rfloor>" "0 < r" "r < ?h"
      by (simp_all add: clamps_to_index_def)
    with Finite h0 show ?thesis by (simp add: constrain_cases)
  qed (use no h0 in \<open>simp_all add: clamps_to_index_def constrain_cases\<close>)
  then have a: "\<not> selects_index (fst (Select_set_value E v s))"
    by (auto simp: selects_index_def set_value_selected split: number.splits)
  from st have "snd (Select_set_value E v s) \<noteq> None"
    by (auto simp: set_value_raises set_value_selected element_at_def)
  with set_value_raises_TypeError [of E v s] a st show ?thesis
    by (simp add: set_value_selected)
qed

lemma set_value_in_range:
  assumes ne: "optionsList s \<noteq> []" and r: "0 \<le> r" "r \<le> real (length (optionsList s)) - 1"
  shows "selected (fst (Select_set_value E (Finite r) s)) = Finite r"
  using r by (simp add: set_value_selected constrain_cases)

text \<open>
  Claim C9, as the code has it. The setter stores \<open>constrain(v, 0, n - 1)\<close> and the
  getter returns what is stored. For every number \<open>v\<close> that is neither NaN nor a
  fraction strictly between 0 and \<open>n - 1\<close> the stored number is an index from 0 to
  \<open>n - 1\<close>, it is \<open>v\<close> itself when \<open>v\<close> lies in that range, and the assignment
  raises nothing; the selected value is such an index after the constructor, after such
  an assignment and after a click. For NaN and for a fraction strictly between 0 and
  \<open>n - 1\<close> the setter stores the number as it is and then raises \<open>TypeError\<close>, and
  the getter returns a number that is no index.
\<close>

theorem select_value_clamped:
  "(Select_new E pd l opts = Inr s0 \<longrightarrow> selects_index s0 \<and> optionsList s0 \<noteq> []) \<and>
   (optionsList s \<noteq> [] \<longrightarrow>
      Select_get_value (fst (Select_set_value E v s)) =
        constrain v 0 (Finite (real (length (optionsList s)) - 1)) \<and>
      optionsList (fst (Select_set_value E v s)) = optionsList s \<and>
      (clamps_to_index (length (optionsList s)) v \<longrightarrow>
         selects_index (fst (Select_set_value E v s)) \<and> snd (Select_set_value E v s) = None) \<and>
      (\<not> clamps_to_index (length (optionsList s)) v \<longrightarrow>
         \<not> selects_index (fst (Select_set_value E v s)) \<and>
         snd (Select_set_value E v s) = Some TypeError \<and>
         Select_get_value (fst (Select_set_value E v s)) = v) \<and>
      (0 \<le> r \<and> r \<le> real (length (optionsList s)) - 1 \<longrightarrow>
         Select_get_value (fst (Select_set_value E (Finite r) s)) = Finite r)) \<and>
   (selects_index s \<longrightarrow> selects_index (Select_click s))"
proof -
  have click: "selects_index s \<longrightarrow> selects_index (Select_click s)"
    by (simp add: selects_index_def Select_click_def split: number.splits)
  have made: "Select_new E pd l opts = Inr s0 \<longrightarrow> selects_index s0 \<and> optionsList s0 \<noteq> []"
    using Select_new_selects_index [of E pd l opts s0] by blast
  have stored: "Select_get_value (fst (Select_set_value E v s)) =
        constrain v 0 (Finite (real (length (optionsList s)) - 1))"
    by (simp add: Select_get_value_def set_value_selected)
  have kept: "optionsList (fst (Select_set_value E v s)) = optionsList s"
    by (rule set_value_optionsList)
  have rejected: "optionsList s \<noteq> [] \<Longrightarrow> \<not> clamps_to_index (length (optionsList s)) v \<Longrightarrow>
      \<not> selects_index (fst (Select_set_value E v s)) \<and>
      snd (Select_set_value E v s) = Some TypeError \<and>
      Select_get_value (fst (Select_set_value E v s)) = v"
    using set_value_rejects [of s v E] by (simp add: Select_get_value_def)
  have inside: "optionsList s \<noteq> [] \<Longrightarrow> 0 \<le> r \<and> r \<le> real (length (optionsList s)) - 1 \<Longrightarrow>
      Select_get_value (fst (Select_set_value E (Finite r) s)) = Finite r"
    using set_value_in_range [of s r E] by (simp add: Select_get_value_def)
  from made stored kept rejected inside click set_value_accepts [of s v E]
  show ?thesis by blast
qed

lemma sample_select_made:
  "Select_new sample_environment None [''a'', ''b'', ''c''] None = Inr sample_select"
  using Select_new_Inr [of "[''a'', ''b'', ''c'']" sample_environment None None]
  by (auto simp: sample_select_def)

lemma sample_select_options: "map get_text (optionsList sample_select) = [''a'', ''b'', ''c'']"
  using Select_new_Inr [of "[''a'', ''b'', ''c'']" sample_environment None None]
    sample_select_made by auto

lemma sample_select_length: "length (optionsList sample_select) = 3"
  using sample_select_options
  by (metis length_map length_Cons list.size(3) numeral_3_eq_3)

text \<open>
  The theorem at the select of three options: assigned 7 (clamped to 2), 1 (kept) and
  3/2 (refused), and clicked.
\<close>

theorem select_value_clamped_witness:
  "selects_index sample_select \<and>
   Select_get_value (fst (Select_set_value sample_environment (Finite 7) sample_select)) = Finite 2 \<and>
   snd (Select_set_value sample_environment (Finite 7) sample_select) = None \<and>
   Select_get_value (fst (Select_set_value sample_environment (Finite 1) sample_select)) = Finite 1 \<and>
   snd (Select_set_value sample_environment (Finite (3 / 2)) sample_select) = Some TypeError \<and>
   selects_index (Select_click sample_select)"
proof -
  have ne: "optionsList sample_select \<noteq> []"
    using sample_select_length by auto
  have a: "clamps_to_index 3 (Finite 7)" "\<not> clamps_to_index 3 (Finite (3 / 2))"
    by (simp_all add: clamps_to_index_def)
  have c: "constrain (Finite 7) 0 (Finite (3 - 1)) = Finite 2"
    by (simp add: constrain_def zero_number_def)
  from select_value_clamped [of sample_environment None "[''a'', ''b'', ''c'']" None
      sample_select sample_select "Finite 7" 1]
    select_value_clamped [of sample_environment None "[''a'', ''b'', ''c'']" None
      sample_select sample_select "Finite (3 / 2)" 1]
    sample_select_made ne a c
  show ?thesis by (simp add: sample_select_length)
qed

text \<open>
  Claim C9 as stated fails: after the assignment of NaN to the select of three options the
  getter returns NaN, and after the assignment of 3/2 it returns 3/2; neither is an index
  from 0 to 2, and both assignments raise.
\<close>

theorem select_value_not_an_index:
  "Select_get_value (fst (Select_set_value sample_environment NaN sample_select)) = NaN \<and>
   snd (Select_set_value sample_environment NaN sample_select) = Some TypeError \<and>
   Select_get_value (fst (Select_set_value sample_environment (Finite (3 / 2)) sample_select))
     = Finite (3 / 2) \<and>
   snd (Select_set_value sample_environment (Finite (3 / 2)) sample_select) = Some TypeError \<and>
   length (optionsList sample_select) = 3"
proof -
  have ne: "optionsList sample_select \<noteq> []"
    using sample_select_length by auto
  have "\<not> clamps_to_index (length (optionsList sample_select)) NaN"
    "\<not> clamps_to_index (length (optionsList sample_select)) (Finite (3 / 2))"
    by (simp_all add: clamps_to_index_def sample_select_length)
  from set_value_rejects [OF ne this(1)] set_value_rejects [OF ne this(2)]
  show ?thesis by (simp add: Select_get_value_def sample_select_length)
qed

section \<open>Properties of the options\<close>

lemma spread_merge: "spread a b = AList.merge a b"
  by (simp add: spread_def AList.merge_def)

lemma get_prop_spread:
  "get_prop (spread a b) k = (case map_of b k of None \<Rightarrow> get_prop a k | Some v \<Rightarrow> v)"
  by (simp add: get_prop_def spread_merge merge_conv' map_add_def split: option.splits)

lemma spread_Nil: "spread a [] = a"
  by (simp add: spread_def)

lemma deep_merge_spread:
  "deep_merge p c = spread p (map (\<lambda>(k, v). (k, deep_value (get_prop p k) v)) c)"
  unfolding deep_merge_def spread_def by (induction c) auto

lemma map_of_values: "map_of (map (\<lambda>(k, v). (k, f k v)) c) k = map_option (f k) (map_of c k)"
  by (induction c) auto

lemma get_prop_deep_merge:
  "get_prop (deep_merge p c) k =
     (case map_of c k of None \<Rightarrow> get_prop p k | Some v \<Rightarrow> deep_value (get_prop p k) v)"
  by (simp add: deep_merge_spread get_prop_spread map_of_values split: option.splits)

lemma deep_merge_Nil: "deep_merge p [] = p"
  by (simp add: deep_merge_def)

lemma deep_value_defined: "v \<noteq> Undefined \<Longrightarrow> deep_value pv v \<noteq> Undefined"
  by (cases pv; cases v) simp_all

lemma keys_spread: "keys (spread a b) = keys a \<union> keys b"
  using dom_merge [of a b] by (simp add: keys_def spread_merge dom_map_of_conv_image_fst)

lemma get_prop_update:
  "get_prop (AList.update k v al) k' = (if k' = k then v else get_prop al k')"
  by (simp add: get_prop_def update_conv')

lemma keys_update: "keys (AList.update k v al) = insert k (keys al)"
  using dom_update [of k v al] by (simp add: keys_def dom_map_of_conv_image_fst)

lemma defined_key:
  "\<not> has_undefined obj \<Longrightarrow> k \<in> keys obj \<Longrightarrow> get_prop obj k \<noteq> Undefined"
  by (auto simp: has_undefined_def keys_def)

lemma Text_defaults_defined:
  "well_formed E \<Longrightarrow> k \<in> keys (Text_defaultOptions E) \<Longrightarrow>
   get_prop (Text_defaultOptions E) k \<noteq> Undefined"
  by (auto simp: Text_defaultOptions_def get_prop_spread keys_spread well_formed_def
      Text_alignments_def get_prop_def [of "[_]"] get_prop_def [of "_ # _ # _"] keys_def [of "_ # _"]
      dest: defined_key split: option.splits)


lemma Line_defaults_defined:
  "well_formed E \<Longrightarrow> k \<in> keys (Line_defaultOptions E) \<Longrightarrow>
   get_prop (Line_defaultOptions E) k \<noteq> Undefined"
  by (auto simp: Line_defaultOptions_def get_prop_spread keys_spread well_formed_def
      get_prop_update keys_update Line_caps_def Let_def
      get_prop_def [of "_ # _"] keys_def [of "_ # _"]
      dest: defined_key split: option.splits)

lemma Arc_defaults_defined:
  "well_formed E \<Longrightarrow> k \<in> keys (Arc_defaultOptions E) \<Longrightarrow>
   get_prop (Arc_defaultOptions E) k \<noteq> Undefined"
  using Line_defaults_defined [of E k]
  by (auto simp: Arc_defaultOptions_def get_prop_spread keys_spread keys_def [of "_ # _"]
      split: option.splits)

lemma Sprite_defaults_defined:
  "well_formed E \<Longrightarrow> k \<in> keys (Sprite_defaultOptions E) \<Longrightarrow>
   get_prop (Sprite_defaultOptions E) k \<noteq> Undefined"
  by (auto simp: Sprite_defaultOptions_def get_prop_spread keys_spread well_formed_def
      keys_def [of "_ # _"] dest: defined_key split: option.splits)

lemma layered_defaults_defined:
  assumes wf: "well_formed E" and v: "v \<noteq> Undefined"
    and k: "k \<in> keys (spread (spread (Text_defaultOptions E) (Input_defaultOptions E)) [(''value'', v)])"
  shows "get_prop (spread (spread (Text_defaultOptions E) (Input_defaultOptions E)) [(''value'', v)]) k
         \<noteq> Undefined"
proof (cases "k = ''value''")
  case True
  with v show ?thesis by (simp add: get_prop_spread)
next
  case False
  show ?thesis
  proof (cases "map_of (Input_defaultOptions E) k")
    case None
    then have "k \<notin> keys (Input_defaultOptions E)"
      by (simp add: keys_def map_of_eq_None_iff)
    with k False have "k \<in> keys (Text_defaultOptions E)"
      by (auto simp: keys_spread keys_def [of "[_]"])
    with Text_defaults_defined [OF wf] None False show ?thesis
      by (simp add: get_prop_spread)
  next
    case (Some w)
    then have "k \<in> keys (Input_defaultOptions E)"
      by (metis keys_def map_of_eq_None_iff option.distinct(1))
    with wf have "get_prop (Input_defaultOptions E) k \<noteq> Undefined"
      by (auto simp: well_formed_def dest: defined_key)
    with Some False show ?thesis
      by (simp add: get_prop_spread get_prop_def [of "Input_defaultOptions E"])
  qed
qed

lemma class_defaults_defined:
  assumes wf: "well_formed E" and k: "k \<in> keys (defaultOptions E c)"
  shows "get_prop (defaultOptions E c) k \<noteq> Undefined"
proof (cases c)
  case Rectangle
  with wf k show ?thesis by (auto simp: well_formed_def dest: defined_key)
next
  case Line
  with wf k show ?thesis by (simp add: Line_defaults_defined)
next
  case Arc
  with wf k show ?thesis by (simp add: Arc_defaults_defined)
next
  case Text
  with wf k show ?thesis by (simp add: Text_defaults_defined)
next
  case Sprite
  with wf k show ?thesis by (simp add: Sprite_defaults_defined)
next
  case Button
  with k layered_defaults_defined [OF wf, of "String []" k] show ?thesis
    by (simp add: Button_defaultOptions_def)
next
  case Select
  with k layered_defaults_defined [OF wf, of "Number 0" k] show ?thesis
    by (simp add: Select_defaultOptions_def)
qed

text \<open>
  Claim C4, as the code has it. With well-formed default tables, the resolved options of
  an instance of any class bind no key of the default chain of the class to
  \<open>undefined\<close>, unless the overrides given to the constructor bind that key to
  \<open>undefined\<close> themselves; a key may be resolved to \<open>null\<close>, as \<open>fill\<close> and
  \<open>cursor\<close> are for a line and \<open>join\<close> is for an arc.
\<close>

theorem resolved_options_defined:
  assumes "well_formed E" and "k \<in> keys (defaultOptions E c)"
  shows "get_prop (resolve (defaultOptions E c) None) k \<noteq> Undefined \<and>
         (map_of overrides k \<noteq> Some Undefined \<longrightarrow>
            get_prop (resolve (defaultOptions E c) (Some overrides)) k \<noteq> Undefined) \<and>
         get_prop (defaultOptions E Line) ''fill'' = Null \<and>
         get_prop (defaultOptions E Line) ''cursor'' = Null \<and>
         get_prop (defaultOptions E Arc) ''join'' = Null"
proof -
  have nulls: "get_prop (defaultOptions E Line) ''fill'' = Null"
    "get_prop (defaultOptions E Line) ''cursor'' = Null"
    "get_prop (defaultOptions E Arc) ''join'' = Null"
    by (simp_all add: Line_defaultOptions_def Arc_defaultOptions_def get_prop_spread
        get_prop_update Let_def)
  from class_defaults_defined [OF assms] nulls show ?thesis
    by (cases "map_of overrides k")
      (simp_all add: resolve_def get_prop_deep_merge deep_merge_Nil deep_value_defined)
qed

lemma sample_well_formed: "well_formed sample_environment"
  by (simp add: well_formed_def sample_environment_def has_undefined_def get_prop_def)

text \<open>
  The theorem at the key \<open>cap\<close> of a line, without overrides and with the override
  \<open>butt\<close>.
\<close>

theorem resolved_options_defined_witness:
  "get_prop (resolve (defaultOptions sample_environment Line) None) ''cap'' = String ''round'' \<and>
   get_prop (resolve (defaultOptions sample_environment Line) (Some [(''cap'', String ''butt'')])) ''cap''
     = String ''butt''"
proof -
  have k: "''cap'' \<in> keys (defaultOptions sample_environment Line)"
    by (simp add: Line_defaultOptions_def keys_update keys_spread keys_def [of "_ # _"])
  have o: "map_of [(''cap'', String ''butt'')] ''cap'' \<noteq> Some Undefined" by simp
  have "get_prop (resolve (defaultOptions sample_environment Line) None) ''cap'' = String ''round''"
    "get_prop (resolve (defaultOptions sample_environment Line) (Some [(''cap'', String ''butt'')])) ''cap''
      = String ''butt''"
    by (simp_all add: resolve_def get_prop_deep_merge deep_merge_Nil get_prop_spread
        Line_defaultOptions_def get_prop_update Line_caps_def get_prop_def [of "_ # _"] Let_def)
  with resolved_options_defined [OF sample_well_formed k, of "[(''cap'', String ''butt'')]"] o
  show ?thesis by simp
qed

text \<open>
  Claim C4 as stated fails: an instance built with the override \<open>{cap: undefined}\<close>
  has \<open>undefined\<close> under \<open>cap\<close>, a key of the default chain of Line.
\<close>

theorem explicit_undefined_override:
  "''cap'' \<in> keys (defaultOptions sample_environment Line) \<and>
   get_prop (resolve (defaultOptions sample_environment Line) (Some [(''cap'', Undefined)])) ''cap''
     = Undefined"
  by (simp add: resolve_def get_prop_deep_merge Line_defaultOptions_def keys_update keys_spread
      keys_def [of "_ # _"])

subsection \<open>The default options of a class and those of its supertype\<close>

lemma spread_deep_merge:
  assumes "\<forall>(k, v) \<in> set c. deep_value (get_prop p k) v = v"
  shows "spread p c = deep_merge p c"
proof -
  from assms have "foldr (\<lambda>(k, v). AList.update k v) c p
      = foldr (\<lambda>(k, v). AList.update k (deep_value (get_prop p k) v)) c p"
    by (intro foldr_cong) auto
  then show ?thesis by (simp add: spread_def deep_merge_def)
qed

lemma deep_value_scalar: "\<not> is_object v \<Longrightarrow> deep_value pv v = v"
  by (cases pv; cases v) simp_all

lemma Text_defaults_deep:
  "Text_defaultOptions E =
     deep_merge (Component_defaultOptions E)
       [(''font'', String ''sans-serif''),
        (''fontSize'', Number 20),
        (''align'', String ''start''),
        (''bold'', Boolean False),
        (''italic'', Boolean False),
        (''underscore'', Boolean False),
        (''lineHeight'', Number 1)]"
proof -
  have "get_prop Text_alignments ''start'' = String ''start''"
    by (simp add: Text_alignments_def get_prop_def)
  then show ?thesis
    by (simp add: Text_defaultOptions_def spread_deep_merge deep_value_scalar)
qed

lemma Line_defaults_deep:
  assumes "\<not> is_object (get_prop (Component_joins E) ''round'')"
  shows "Line_defaultOptions E =
     AList.update ''stroke'' (get_prop (Component_defaultOptions E) ''fill'')
       (deep_merge (Component_defaultOptions E)
          [(''cap'', String ''round''),
           (''join'', get_prop (Component_joins E) ''round''),
           (''fill'', Null),
           (''cursor'', Null)])"
proof -
  have "get_prop Line_caps ''round'' = String ''round''"
    by (simp add: Line_caps_def get_prop_def)
  with assms show ?thesis
    by (simp add: Line_defaultOptions_def spread_deep_merge deep_value_scalar Let_def)
qed

lemma Arc_defaults_deep:
  "Arc_defaultOptions E = deep_merge (Line_defaultOptions E) [(''join'', Null)]"
  by (simp add: Arc_defaultOptions_def spread_deep_merge deep_value_scalar)

lemma Sprite_defaults_deep:
  "Sprite_defaultOptions E =
     deep_merge (Image_defaultOptions E) [(''speed'', Number 1), (''loop'', Boolean True)]"
  by (simp add: Sprite_defaultOptions_def spread_deep_merge deep_value_scalar)

lemma layered_defaults_deep:
  assumes "\<forall>(key, v) \<in> set (Input_defaultOptions E).
             deep_value (get_prop (Text_defaultOptions E) key) v = v"
    and "\<not> is_object value"
  shows "spread (spread (Text_defaultOptions E) (Input_defaultOptions E)) [(''value'', value)] =
         deep_merge (deep_merge (Text_defaultOptions E) (Input_defaultOptions E)) [(''value'', value)]"
  using assms spread_deep_merge [of "Input_defaultOptions E" "Text_defaultOptions E"]
  by (simp add: spread_deep_merge deep_value_scalar)

text \<open>
  Claim C5. The default options of each class are the recursive merge of the class's own
  keys into the defaults of its supertype: a key of the child overrides the parent's, two
  nested objects under one key merge recursively, an array (and every other value)
  replaces the parent's wholesale. Every key that Text, Line, Arc, Sprite, Button and
  Select declare themselves holds a string, a number, a boolean or \<open>null\<close>, so the
  object spread of the getters is this merge whatever the supertype's defaults hold; this
  needs of the tables that are not among the sources that the join \<open>round\<close> is no
  object (for Line) and that merging a default of Input into the default that Text has
  under the same key gives the default of Input (for Button and Select, which lay the
  defaults of Input over those of Text). Line overrides the inherited \<open>fill\<close> and
  \<open>cursor\<close> and takes its \<open>stroke\<close> from the \<open>fill\<close> of the supertype. The
  overrides of an instance merge into the defaults of its class in the same way, so the
  precedence is instance over class over supertype.
\<close>

theorem defaults_deep_merge:
  "get_prop (deep_merge parent child) k =
     (case map_of child k of
        None \<Rightarrow> get_prop parent k
      | Some v \<Rightarrow> deep_value (get_prop parent k) v) \<and>
   deep_value (Object p) (Object q) = Object (deep_merge p q) \<and>
   deep_value pv (Array a) = Array a \<and>
   Text_defaultOptions E =
     deep_merge (Component_defaultOptions E)
       [(''font'', String ''sans-serif''),
        (''fontSize'', Number 20),
        (''align'', String ''start''),
        (''bold'', Boolean False),
        (''italic'', Boolean False),
        (''underscore'', Boolean False),
        (''lineHeight'', Number 1)] \<and>
   (\<not> is_object (get_prop (Component_joins E) ''round'') \<longrightarrow>
      Line_defaultOptions E =
        AList.update ''stroke'' (get_prop (Component_defaultOptions E) ''fill'')
          (deep_merge (Component_defaultOptions E)
             [(''cap'', String ''round''),
              (''join'', get_prop (Component_joins E) ''round''),
              (''fill'', Null),
              (''cursor'', Null)])) \<and>
   get_prop (Line_defaultOptions E) k =
     (if k = ''stroke'' then get_prop (Component_defaultOptions E) ''fill''
      else if k = ''cap'' then String ''round''
      else if k = ''join'' then get_prop (Component_joins E) ''round''
      else if k = ''fill'' \<or> k = ''cursor'' then Null
      else get_prop (Component_defaultOptions E) k) \<and>
   Arc_defaultOptions E = deep_merge (Line_defaultOptions E) [(''join'', Null)] \<and>
   Sprite_defaultOptions E =
     deep_merge (Image_defaultOptions E) [(''speed'', Number 1), (''loop'', Boolean True)] \<and>
   ((\<forall>(key, v) \<in> set (Input_defaultOptions E).
        deep_value (get_prop (Text_defaultOptions E) key) v = v) \<longrightarrow>
      Button_defaultOptions E =
        deep_merge (deep_merge (Text_defaultOptions E) (Input_defaultOptions E))
          [(''value'', String [])] \<and>
      Select_defaultOptions E =
        deep_merge (deep_merge (Text_defaultOptions E) (Input_defaultOptions E))
          [(''value'', Number 0)]) \<and>
   get_prop (resolve (defaultOptions E c) (Some overrides)) k =
     (case map_of overrides k of
        None \<Rightarrow> get_prop (defaultOptions E c) k
      | Some v \<Rightarrow> deep_value (get_prop (defaultOptions E c) k) v)"
proof -
  have a: "get_prop (Line_defaultOptions E) k =
     (if k = ''stroke'' then get_prop (Component_defaultOptions E) ''fill''
      else if k = ''cap'' then String ''round''
      else if k = ''join'' then get_prop (Component_joins E) ''round''
      else if k = ''fill'' \<or> k = ''cursor'' then Null
      else get_prop (Component_defaultOptions E) k)"
    by (simp add: Line_defaultOptions_def get_prop_spread get_prop_update Let_def Line_caps_def
        get_prop_def [of "_ # _"])
  have b: "deep_value (Object p) (Object q) = Object (deep_merge p q)"
    by (simp add: deep_merge_def)
  have c: "deep_value pv (Array a) = Array a"
    by (simp add: deep_value_scalar)
  have d: "\<not> is_object (get_prop (Component_joins E) ''round'') \<longrightarrow>
      Line_defaultOptions E =
        AList.update ''stroke'' (get_prop (Component_defaultOptions E) ''fill'')
          (deep_merge (Component_defaultOptions E)
             [(''cap'', String ''round''),
              (''join'', get_prop (Component_joins E) ''round''),
              (''fill'', Null),
              (''cursor'', Null)])"
    using Line_defaults_deep [of E] by blast
  have e: "(\<forall>(key, v) \<in> set (Input_defaultOptions E).
        deep_value (get_prop (Text_defaultOptions E) key) v = v) \<longrightarrow>
      Button_defaultOptions E =
        deep_merge (deep_merge (Text_defaultOptions E) (Input_defaultOptions E))
          [(''value'', String [])] \<and>
      Select_defaultOptions E =
        deep_merge (deep_merge (Text_defaultOptions E) (Input_defaultOptions E))
          [(''value'', Number 0)]"
    using layered_defaults_deep [of E "String []"] layered_defaults_deep [of E "Number 0"]
    by (simp add: Button_defaultOptions_def Select_defaultOptions_def)
  have f: "get_prop (resolve (defaultOptions E c) (Some overrides)) k =
     (case map_of overrides k of
        None \<Rightarrow> get_prop (defaultOptions E c) k
      | Some v \<Rightarrow> deep_value (get_prop (defaultOptions E c) k) v)"
    by (simp add: resolve_def get_prop_deep_merge)
  show ?thesis
    by (intro conjI)
      (rule get_prop_deep_merge a b c d e f Text_defaults_deep Arc_defaults_deep
        Sprite_defaults_deep)+
qed

lemma library_Line_join:
  "\<not> is_object (get_prop (Component_joins library_environment) ''round'')"
  by (simp add: library_environment_def sample_environment_def get_prop_def)

lemma library_Input_over_Text:
  "\<forall>(key, v) \<in> set (Input_defaultOptions library_environment).
     deep_value (get_prop (Text_defaultOptions library_environment) key) v = v"
  by (simp add: library_environment_def sample_environment_def Text_defaultOptions_def
      Text_alignments_def spread_def get_prop_def)

text \<open>
  The theorem at an environment in which Text and Input both inherit a nested object
  \<open>shadow\<close> from Component: the defaults of Line and of Button are the recursive merges,
  and an instance of Text that overrides one key of \<open>shadow\<close> keeps the other.
\<close>

theorem defaults_deep_merge_witness:
  "Line_defaultOptions library_environment =
     AList.update ''stroke'' (get_prop (Component_defaultOptions library_environment) ''fill'')
       (deep_merge (Component_defaultOptions library_environment)
          [(''cap'', String ''round''),
           (''join'', get_prop (Component_joins library_environment) ''round''),
           (''fill'', Null),
           (''cursor'', Null)]) \<and>
   Button_defaultOptions library_environment =
     deep_merge (deep_merge (Text_defaultOptions library_environment)
                            (Input_defaultOptions library_environment))
       [(''value'', String [])] \<and>
   get_prop (resolve (defaultOptions library_environment Text)
               (Some [(''shadow'', Object [(''blur'', Number 4)])])) ''shadow'' =
     Object [(''blur'', Number 4), (''color'', String ''#000'')]"
proof -
  note w = defaults_deep_merge [of "[]" "[]" "''shadow''" "[]" "[]" Undefined "[]"
      library_environment Text "[(''shadow'', Object [(''blur'', Number 4)])]"]
  have "deep_value (get_prop (defaultOptions library_environment Text) ''shadow'')
          (Object [(''blur'', Number 4)]) =
        Object [(''blur'', Number 4), (''color'', String ''#000'')]"
    by (simp add: library_environment_def sample_environment_def Text_defaultOptions_def
        Text_alignments_def spread_def get_prop_def)
  moreover from w have "get_prop (resolve (defaultOptions library_environment Text)
               (Some [(''shadow'', Object [(''blur'', Number 4)])])) ''shadow'' =
      (case map_of [(''shadow'', Object [(''blur'', Number 4)])] ''shadow'' of
         None \<Rightarrow> get_prop (defaultOptions library_environment Text) ''shadow''
       | Some v \<Rightarrow> deep_value (get_prop (defaultOptions library_environment Text) ''shadow'') v)"
    by blast
  ultimately have r: "get_prop (resolve (defaultOptions library_environment Text)
               (Some [(''shadow'', Object [(''blur'', Number 4)])])) ''shadow'' =
      Object [(''blur'', Number 4), (''color'', String ''#000'')]"
    by simp
  from w library_Line_join have l: "Line_defaultOptions library_environment =
     AList.update ''stroke'' (get_prop (Component_defaultOptions library_environment) ''fill'')
       (deep_merge (Component_defaultOptions library_environment)
          [(''cap'', String ''round''),
           (''join'', get_prop (Component_joins library_environment) ''round''),
           (''fill'', Null),
           (''cursor'', Null)])"
    by blast
  from w library_Input_over_Text have b: "Button_defaultOptions library_environment =
     deep_merge (deep_merge (Text_defaultOptions library_environment)
                            (Input_defaultOptions library_environment))
       [(''value'', String [])]"
    by blast
  from l b r show ?thesis by (intro conjI)
qed

section \<open>Properties of the geometry pipeline\<close>

lemma Text_trace_again:
  "Text_trace E t [] = (t1, q) \<Longrightarrow>
   Text_trace E t1 [] = (t1, q) \<and> t1 = t\<lparr>path := Some q\<rparr> \<and>
   q = [Rect 0 0 (Text_width E t) (Text_height E t)]"
  by (auto simp: Text_trace_def Let_def Text_width_def Text_height_def Text_getMeasures_def
      get_text_def path_rect_def)

lemma Text_makePath_same:
  "Text_makePath H E t ctx = Inr (t1, ctx1) \<Longrightarrow> t1 = t"
  by (auto simp: Text_makePath_def Let_def split: if_splits prod.splits sum.splits)

lemma Sprite_makePath_still:
  assumes run: "Sprite_makePath s = Inr (s1, painted, fired)"
    and still: "\<not> advances (Sprite_shape s)"
  shows "Sprite_makePath s1 = Inr (s1, painted, []) \<and> fired = [] \<and>
         Sprite_shape s1 = sized (Sprite_shape s)"
proof (cases "frame_at (frames s) \<lfloor>frame s\<rfloor>")
  case (Inl e)
  with run show ?thesis by (simp add: Sprite_makePath_def)
next
  case (Inr fd)
  obtain fx fy fw fh sx sy sw sh where fd: "fd = FrameData (Region fx fy fw fh) (Region sx sy sw sh)"
    by (metis frame_data.exhaust region.exhaust)
  show ?thesis
    using run still Inr
    by (auto simp: fd Sprite_makePath_def Image_makePath_def Sprite_draw_def setFrame_def Let_def
        split: if_splits)
qed

lemma Sprite_makePath_moves:
  assumes run: "Sprite_makePath s = Inr (s1, painted, fired)"
    and moves: "advances (Sprite_shape s)"
  shows "frame s1 = modulo (frame s + speed (options s)) (real (length (frames s))) \<and>
         frame s1 \<noteq> frame s"
proof (cases "frame_at (frames s) \<lfloor>frame s\<rfloor>")
  case (Inl e)
  with run show ?thesis by (simp add: Sprite_makePath_def)
next
  case (Inr fd)
  obtain fx fy fw fh sx sy sw sh where fd: "fd = FrameData (Region fx fy fw fh) (Region sx sy sw sh)"
    by (metis frame_data.exhaust region.exhaust)
  show ?thesis
    using run moves Inr
    by (auto simp: fd Sprite_makePath_def Image_makePath_def Sprite_draw_def setFrame_def Let_def
        split: if_splits)
qed

text \<open>
  Claim C2, as the code has it. For a rectangle, a line, an arc and a text, a call of
  \<open>computePath\<close> that returns leaves every field of the component as it was, and a
  second call gives the same geometry again and fires nothing; \<open>Text.trace\<close>, which
  \<open>Text.makePath\<close> does not call, keeps the traced rectangle in \<open>this.path\<close> and
  traces the same rectangle again. A call on a sprite assigns the width and the height of
  the original file of the current frame; when it does not advance the frame, a second
  call paints the same again, fires nothing and changes nothing. When it advances the
  frame, the frame after the call is another one, \<open>modulo(frame + speed, frames.length)\<close>,
  so the call has changed the state of the sprite. No code of the pipeline reads or
  writes a dirty flag.
\<close>

theorem computePath_idempotent:
  assumes run: "computePath H E sh = Inr (sh1, g, fired)"
  shows "(if advances sh
          then \<exists>s s1. sh = Sprite_shape s \<and> sh1 = Sprite_shape s1 \<and>
                 frame s1 = modulo (frame s + speed (options s)) (real (length (frames s))) \<and>
                 frame s1 \<noteq> frame s
          else computePath H E sh1 = Inr (sh1, g, []) \<and> fired = [] \<and> sh1 = sized sh) \<and>
         Text_trace E t [] =
           (t\<lparr>path := Some [Rect 0 0 (Text_width E t) (Text_height E t)]\<rparr>,
            [Rect 0 0 (Text_width E t) (Text_height E t)]) \<and>
         Text_trace E (fst (Text_trace E t [])) [] = Text_trace E t []"
proof (rule conjI)
  show "Text_trace E t [] =
           (t\<lparr>path := Some [Rect 0 0 (Text_width E t) (Text_height E t)]\<rparr>,
            [Rect 0 0 (Text_width E t) (Text_height E t)]) \<and>
         Text_trace E (fst (Text_trace E t [])) [] = Text_trace E t []"
    using Text_trace_again [of E t] by (cases "Text_trace E t []") auto
next
  show "if advances sh
        then \<exists>s s1. sh = Sprite_shape s \<and> sh1 = Sprite_shape s1 \<and>
               frame s1 = modulo (frame s + speed (options s)) (real (length (frames s))) \<and>
               frame s1 \<noteq> frame s
        else computePath H E sh1 = Inr (sh1, g, []) \<and> fired = [] \<and> sh1 = sized sh"
  proof (cases sh)
  case (Rectangle_shape r)
  with run show ?thesis by (auto simp: Rectangle_trace_def)
next
  case (Line_shape l)
  with run show ?thesis by (auto simp: Line_trace_def)
next
  case (Arc_shape a)
  with run show ?thesis
    by (auto simp: Arc_trace_def Let_def split: sum.splits)
next
  case (Text_shape t)
  with run obtain t1 ctx where mk: "Text_makePath H E t [] = Inr (t1, ctx)"
    and res: "sh1 = Text_shape t1" "g = Drawn ctx" "fired = []"
    by (auto split: sum.splits prod.splits)
  from Text_makePath_same [OF mk] have "t1 = t" .
  with mk res Text_shape show ?thesis by simp
next
  case (Sprite_shape s)
  with run obtain s1 painted where mk: "Sprite_makePath s = Inr (s1, painted, fired)"
    and res: "sh1 = Sprite_shape s1" "g = Painted painted"
    by (auto split: sum.splits prod.splits)
  show ?thesis
  proof (cases "advances (Sprite_shape s)")
    case True
    with Sprite_makePath_moves [OF mk True] Sprite_shape res show ?thesis by simp
  next
    case False
    from Sprite_makePath_still [OF mk False]
    have a: "Sprite_makePath s1 = Inr (s1, painted, [])" and b: "fired = []"
      and c: "Sprite_shape s1 = sized (Sprite_shape s)"
      by blast+
    from False Sprite_shape have na: "\<not> advances sh" by simp
    from a res have "computePath H E sh1 = Inr (sh1, g, [])" by simp
    moreover from c res Sprite_shape have "sh1 = sized sh" by (simp del: sized.simps)
    ultimately show ?thesis using na b by (simp del: sized.simps advances.simps)
  qed
qed
qed

lemma sample_text_value:
  "sample_text = \<lparr>position = (0, 0),
      options = [(''fill'', String ''#000''), (''shown'', Boolean True),
        (''lineHeight'', Number 1), (''underscore'', Boolean False), (''italic'', Boolean False),
        (''bold'', Boolean False), (''align'', String ''start''), (''fontSize'', Number 20),
        (''font'', String ''sans-serif'')],
      lines = [''hi''], path = None\<rparr>"
  by (simp add: sample_text_def Text_new_def Component_new_def resolve_def deep_merge_def
      Text_defaultOptions_def spread_def sample_environment_def Position_from_def set_text_def
      component.extend_def text_component.fields_def Text_alignments_def get_prop_def separator_def)

lemma sample_text_drawn:
  "computePath sample_host sample_environment (Text_shape sample_text) =
     Inr (Text_shape sample_text,
          Drawn [Save, SuperSetContext, Font ''20px sans-serif'', TextAlign (String ''start''),
                 TextBaseline ''top'', Translate 0 0, FillText ''hi'' 0 (Finite 0), Restore], [])"
  by (simp add: sample_text_value Text_makePath_def Text_setContext_def Text_getFontDefinition_def
      Text_getAlignOffset_def Text_draw_line_def Text_measure_def Text_width_def
      Text_getMeasures_def get_text_def sample_host_def sample_environment_def
      Text_alignments_def get_prop_def number_minus_def Let_def zero_number_def)

lemma paused_sprite_painted:
  "computePath sample_host sample_environment (Sprite_shape (pause sample_sprite)) =
     Inr (Sprite_shape (pause sample_sprite\<lparr>width := 16, height := 16\<rparr>),
          Painted [DrawImage ''sheet.png'' 0 0 16 16 0 0 16 16], [])"
  by (simp add: Sprite_makePath_def Image_makePath_def Sprite_draw_def frame_at_def
      sample_sprite_def pause_def)

text \<open>
  The theorem at the sample sprite when paused, which the first call sizes 16 by 16, and
  at the sample text: the second call gives what the first has given.
\<close>

theorem computePath_idempotent_witness:
  "computePath sample_host sample_environment
     (Sprite_shape (pause sample_sprite\<lparr>width := 16, height := 16\<rparr>)) =
   Inr (Sprite_shape (pause sample_sprite\<lparr>width := 16, height := 16\<rparr>),
        Painted [DrawImage ''sheet.png'' 0 0 16 16 0 0 16 16], []) \<and>
   computePath sample_host sample_environment (Text_shape sample_text) =
   Inr (Text_shape sample_text,
        Drawn [Save, SuperSetContext, Font ''20px sans-serif'', TextAlign (String ''start''),
               TextBaseline ''top'', Translate 0 0, FillText ''hi'' 0 (Finite 0), Restore], [])"
proof -
  have b: "\<not> advances (Sprite_shape (pause sample_sprite))"
    by (simp add: pause_def)
  have d: "\<not> advances (Text_shape sample_text)"
    by simp
  have "computePath sample_host sample_environment
      (Sprite_shape (pause sample_sprite\<lparr>width := 16, height := 16\<rparr>)) =
      Inr (Sprite_shape (pause sample_sprite\<lparr>width := 16, height := 16\<rparr>),
           Painted [DrawImage ''sheet.png'' 0 0 16 16 0 0 16 16], [])"
    using computePath_idempotent [OF paused_sprite_painted, of sample_text] b
    by metis
  moreover have "computePath sample_host sample_environment (Text_shape sample_text) =
      Inr (Text_shape sample_text,
           Drawn [Save, SuperSetContext, Font ''20px sans-serif'', TextAlign (String ''start''),
                  TextBaseline ''top'', Translate 0 0, FillText ''hi'' 0 (Finite 0), Restore], [])"
    using computePath_idempotent [OF sample_text_drawn, of sample_text] d
    by metis
  ultimately show ?thesis by (rule conjI)
qed

text \<open>
  Claim C2 as stated fails for Sprite: two calls in a row on the sample sprite, with no
  attribute changed in between, paint two different regions, and each call changes the
  frame and the size of the sprite.
\<close>

theorem sprite_computePath_twice_differs:
  "computePath sample_host sample_environment (Sprite_shape sample_sprite) =
     Inr (Sprite_shape (sample_sprite\<lparr>width := 16, height := 16, frame := 1\<rparr>),
          Painted [DrawImage ''sheet.png'' 0 0 16 16 0 0 16 16], [''sprite-frame'']) \<and>
   computePath sample_host sample_environment
     (Sprite_shape (sample_sprite\<lparr>width := 16, height := 16, frame := 1\<rparr>)) =
     Inr (Sprite_shape (sample_sprite\<lparr>width := 32, height := 24, frame := 0\<rparr>),
          Painted [DrawImage ''sheet.png'' 16 0 32 24 0 0 32 24], [''sprite-frame''])"
  by (simp add: Sprite_makePath_def Image_makePath_def Sprite_draw_def frame_at_def
      sample_sprite_def setFrame_def modulo_def Sprite_events_frame_def Let_def)

section \<open>Properties of the round trip\<close>

































end
